theory Spec2Isabelle
  imports Main
begin

section \<open>Values and exceptions of the Python program\<close>

text \<open>
  Decoded JSON, as \<^verbatim>\<open>json.loads\<close> and \<^verbatim>\<open>r.json()\<close> return it. Python's \<^verbatim>\<open>None\<close> is
  \<open>JNull\<close>. A Python \<^verbatim>\<open>float\<close> is a value of the type parameter \<open>'f\<close>: IEEE doubles are
  not modelled, and what Python does with one (rounding, formatting, \<^verbatim>\<open>int()\<close>) is
  supplied by the environment record \<open>pyenv\<close> below. A \<^verbatim>\<open>dict\<close> is an association
  list in insertion order, read with \<open>map_of\<close>.
\<close>

datatype 'f json =
    JNull
  | JBool bool
  | JInt int
  | JFloat 'f
  | JStr string
  | JArr "'f json list"
  | JObj "(string \<times> 'f json) list"

text \<open>
  The exceptions below \<^verbatim>\<open>Exception\<close> that the modelled code can raise, other than
  FastAPI's \<^verbatim>\<open>HTTPException\<close>. \<open>HTTPStatusError status text\<close> carries
  \<^verbatim>\<open>exc.response.status_code\<close> and \<^verbatim>\<open>exc.response.text\<close>; \<open>ResponseError\<close> is the Redis
  client's, for a command the server refuses; \<open>UnicodeDecodeError\<close> is raised by the
  client when it decodes a reply (it is built with \<^verbatim>\<open>decode_responses=True\<close>);
  \<open>OtherError msg\<close> is any other failure of the upstream call (network error, timeout,
  undecodable body).
\<close>

datatype py_error =
    HTTPStatusError int string
  | AttributeError
  | TypeError
  | ValueError
  | OverflowError
  | NameError
  | ValidationError
  | ResponseError
  | UnicodeDecodeError
  | OtherError string

text \<open>
  The \<^verbatim>\<open>detail\<close> of an \<^verbatim>\<open>HTTPException\<close>: a literal or response text, or \<^verbatim>\<open>str(exc)\<close> of a
  caught exception, kept symbolic.
\<close>

datatype detail = Text string | StrOf py_error

datatype exn = HTTPException int detail | Err py_error

text \<open>
  What the Python runtime and the libraries do, where the program's result depends on it:
  \<^item> \<open>loads\<close> is \<^verbatim>\<open>json.loads\<close>, \<open>None\<close> where it raises;
  \<^item> \<open>dumps\<close> is \<^verbatim>\<open>json.dumps\<close>;
  \<^item> \<open>int_of_str\<close> and \<open>int_of_float\<close> are \<^verbatim>\<open>int(x)\<close> on a \<^verbatim>\<open>str\<close> and on a \<^verbatim>\<open>float\<close>;
  \<^item> \<open>round_f x n\<close> is \<^verbatim>\<open>round(x, n)\<close> on a \<^verbatim>\<open>float\<close>, \<open>str_f\<close> formats one in an f-string;
  \<^item> \<open>int_field\<close> is pydantic's validation of a value given to an \<^verbatim>\<open>Optional[int]\<close>
    field that is not \<^verbatim>\<open>None\<close>, \<open>None\<close> where it rejects the value.
\<close>

record 'f pyenv =
  loads :: "string \<Rightarrow> 'f json option"
  dumps :: "'f json \<Rightarrow> string"
  int_of_str :: "string \<Rightarrow> py_error + int"
  int_of_float :: "'f \<Rightarrow> py_error + int"
  round_f :: "'f \<Rightarrow> int \<Rightarrow> 'f"
  str_f :: "'f \<Rightarrow> string"
  int_field :: "'f json \<Rightarrow> int option"

text \<open>\<^verbatim>\<open>obj.get(key, default)\<close>: \<^verbatim>\<open>AttributeError\<close> on anything but a \<^verbatim>\<open>dict\<close>.\<close>

fun py_get :: "'f json \<Rightarrow> string \<Rightarrow> 'f json \<Rightarrow> py_error + 'f json" where
  "py_get (JObj kvs) k d = Inr (case map_of kvs k of None \<Rightarrow> d | Some v \<Rightarrow> v)"
| "py_get _ k d = Inl AttributeError"

text \<open>\<^verbatim>\<open>int(v)\<close> on a decoded JSON value.\<close>

fun py_int :: "'f pyenv \<Rightarrow> 'f json \<Rightarrow> py_error + int" where
  "py_int E (JInt i) = Inr i"
| "py_int E (JBool b) = Inr (if b then 1 else 0)"
| "py_int E (JFloat x) = int_of_float E x"
| "py_int E (JStr s) = int_of_str E s"
| "py_int E JNull = Inl TypeError"
| "py_int E (JArr xs) = Inl TypeError"
| "py_int E (JObj kvs) = Inl TypeError"

section \<open>app/models.py\<close>

record 'f Location =
  lat :: 'f
  lon :: 'f
  name :: "string option"
  country :: "string option"

record CacheInfo =
  hit :: bool
  age_seconds :: "int option"
  stale :: bool

record ProviderInfo =
  name :: string
  data_timestamp :: "int option"

record 'f CurrentWeatherResponse =
  location :: "'f Location"
  units :: string
  observed_at :: "string option"
  current :: "'f json"
  provider :: ProviderInfo
  cache :: CacheInfo

record 'f ForecastResponse =
  location :: "'f Location"
  units :: string
  forecast :: "'f json"
  provider :: ProviderInfo
  cache :: CacheInfo

text \<open>
  Sequencing of steps that may raise: the first exception ends the computation.
\<close>

definition and_then :: "'e + 'a \<Rightarrow> ('a \<Rightarrow> 'e + 'b) \<Rightarrow> 'e + 'b" where
  "and_then m f = (case m of Inl e \<Rightarrow> Inl e | Inr x \<Rightarrow> f x)"

text \<open>
  Pydantic's validation of the fields the handlers fill from a payload: an
  \<^verbatim>\<open>Optional[str]\<close> field takes \<^verbatim>\<open>None\<close> or a \<^verbatim>\<open>str\<close>, an \<^verbatim>\<open>Optional[int]\<close> field takes
  \<^verbatim>\<open>None\<close> or what \<open>int_field\<close> accepts, a \<^verbatim>\<open>dict\<close> field takes a \<^verbatim>\<open>dict\<close>, and \<^verbatim>\<open>Units\<close>
  is \<^verbatim>\<open>Literal["metric", "imperial"]\<close>.
\<close>

fun opt_str_field :: "'f json \<Rightarrow> py_error + string option" where
  "opt_str_field JNull = Inr None"
| "opt_str_field (JStr s) = Inr (Some s)"
| "opt_str_field _ = Inl ValidationError"

definition opt_int_field :: "'f pyenv \<Rightarrow> 'f json \<Rightarrow> py_error + int option" where
  "opt_int_field E v =
     (if v = JNull then Inr None
      else (case int_field E v of None \<Rightarrow> Inl ValidationError | Some i \<Rightarrow> Inr (Some i)))"

fun dict_field :: "'f json \<Rightarrow> py_error + 'f json" where
  "dict_field (JObj kvs) = Inr (JObj kvs)"
| "dict_field _ = Inl ValidationError"

definition units_field :: "string \<Rightarrow> py_error + string" where
  "units_field u = (if u = ''metric'' \<or> u = ''imperial'' then Inr u else Inl ValidationError)"

text \<open>\<^verbatim>\<open>Location(lat=lat, lon=lon, name=n, country=c)\<close>\<close>

definition mk_Location :: "'f \<Rightarrow> 'f \<Rightarrow> 'f json \<Rightarrow> 'f json \<Rightarrow> py_error + 'f Location" where
  "mk_Location la lo n c =
     and_then (opt_str_field n) (\<lambda>n'.
     and_then (opt_str_field c) (\<lambda>c'.
       Inr \<lparr>lat = la, lon = lo, Location.name = n', country = c'\<rparr>))"

text \<open>
  \<^verbatim>\<open>CurrentWeatherResponse(location=loc, units=units, observed_at=None, current=payload,
  provider={"name": "openweather", "data_timestamp": dt}, cache=ci)\<close>
\<close>

definition mk_CurrentWeatherResponse ::
  "'f pyenv \<Rightarrow> 'f Location \<Rightarrow> string \<Rightarrow> 'f json \<Rightarrow> 'f json \<Rightarrow> CacheInfo
     \<Rightarrow> py_error + 'f CurrentWeatherResponse" where
  "mk_CurrentWeatherResponse E loc u payload dt ci =
     and_then (units_field u) (\<lambda>u'.
     and_then (dict_field payload) (\<lambda>cur.
     and_then (opt_int_field E dt) (\<lambda>ts.
       Inr \<lparr>CurrentWeatherResponse.location = loc, CurrentWeatherResponse.units = u',
            observed_at = None, current = cur,
            CurrentWeatherResponse.provider = \<lparr>ProviderInfo.name = ''openweather'', data_timestamp = ts\<rparr>,
            CurrentWeatherResponse.cache = ci\<rparr>)))"

text \<open>
  \<^verbatim>\<open>ForecastResponse(location=loc, units=units, forecast=payload,
  provider={"name": "openweather", "data_timestamp": None}, cache=ci)\<close>
\<close>

definition mk_ForecastResponse ::
  "'f Location \<Rightarrow> string \<Rightarrow> 'f json \<Rightarrow> CacheInfo \<Rightarrow> py_error + 'f ForecastResponse" where
  "mk_ForecastResponse loc u payload ci =
     and_then (units_field u) (\<lambda>u'.
     and_then (dict_field payload) (\<lambda>fc.
       Inr \<lparr>ForecastResponse.location = loc, ForecastResponse.units = u', forecast = fc,
            ForecastResponse.provider = \<lparr>ProviderInfo.name = ''openweather'', data_timestamp = None\<rparr>,
            ForecastResponse.cache = ci\<rparr>))"

section \<open>The Redis store\<close>

text \<open>
  What a key of the shared store can hold. A Redis string is a sequence of bytes: either
  the UTF-8 encoding of a text, which is how the client writes a \<^verbatim>\<open>str\<close> and what it
  decodes back to that text (\<open>Utf8\<close>), or bytes that are not valid UTF-8, such as
  \<^verbatim>\<open>FF FE 7B\<close> (\<open>Undecodable\<close>). A key can also hold a value of another Redis type, a
  list or a hash (\<open>OtherType\<close>). The program writes \<open>Utf8\<close> only; the other two are
  what another writer or corruption can leave under a key.
\<close>

datatype redis_value = Utf8 string | Undecodable | OtherType

text \<open>
  The store maps a key to its value and its expiry, a time in milliseconds on the
  clock \<open>t\<close> that every command reads. An entry whose expiry has passed is still in
  the map and is invisible to every command. Connection failures are not modelled.
\<close>

record entry =
  val :: redis_value
  expires_at :: "int option"

type_synonym redis = "string \<rightharpoonup> entry"

definition live :: "redis \<Rightarrow> int \<Rightarrow> string \<Rightarrow> entry option" where
  "live db t k =
     (case db k of
        None \<Rightarrow> None
      | Some e \<Rightarrow>
          (case expires_at e of
             None \<Rightarrow> Some e
           | Some x \<Rightarrow> if x < t then None else Some e))"

text \<open>
  \<^verbatim>\<open>client.get(key)\<close>: \<^verbatim>\<open>None\<close> for a key with no live entry, the decoded text of a
  string, \<^verbatim>\<open>UnicodeDecodeError\<close> for a string that is not UTF-8, and the server's
  \<^verbatim>\<open>WRONGTYPE\<close> error for a value that is not a string.
\<close>

definition client_get :: "redis \<Rightarrow> int \<Rightarrow> string \<Rightarrow> py_error + string option" where
  "client_get db t k =
     (case live db t k of
        None \<Rightarrow> Inr None
      | Some e \<Rightarrow>
          (case val e of
             Utf8 s \<Rightarrow> Inr (Some s)
           | Undecodable \<Rightarrow> Inl UnicodeDecodeError
           | OtherType \<Rightarrow> Inl ResponseError))"

text \<open>\<^verbatim>\<open>client.setex(key, ttl_seconds, value)\<close>: Redis refuses an expire time that is not positive.\<close>

definition client_setex :: "redis \<Rightarrow> int \<Rightarrow> string \<Rightarrow> int \<Rightarrow> string \<Rightarrow> py_error + redis" where
  "client_setex db t k ttl_seconds v =
     (if ttl_seconds \<le> 0 then Inl ResponseError
      else Inr (db(k \<mapsto> \<lparr>val = Utf8 v, expires_at = Some (t + ttl_seconds * 1000)\<rparr>)))"

text \<open>
  \<^verbatim>\<open>client.set(key, value, nx=True, px=ttl_ms)\<close>: the reply (\<^verbatim>\<open>True\<close> or \<^verbatim>\<open>None\<close>) as a
  bool. A live entry of any type keeps the key taken.
\<close>

definition client_set_nx_px :: "redis \<Rightarrow> int \<Rightarrow> string \<Rightarrow> string \<Rightarrow> int \<Rightarrow> py_error + (bool \<times> redis)" where
  "client_set_nx_px db t k v ttl_ms =
     (if ttl_ms \<le> 0 then Inl ResponseError
      else (case live db t k of
              Some e \<Rightarrow> Inr (False, db)
            | None \<Rightarrow> Inr (True, db(k \<mapsto> \<lparr>val = Utf8 v, expires_at = Some (t + ttl_ms)\<rparr>))))"

text \<open>\<^verbatim>\<open>client.delete(key)\<close>\<close>

definition client_delete :: "redis \<Rightarrow> string \<Rightarrow> redis" where
  "client_delete db k = db(k := None)"

section \<open>app/services/cache.py\<close>

record 'f CacheResult =
  "value" :: "'f json"
  hit :: bool
  age_seconds :: "int option"
  stale :: bool

definition miss :: "'f CacheResult" where
  "miss = \<lparr>value = JNull, hit = False, age_seconds = None, stale = False\<rparr>"

text \<open>
  The body of the \<^verbatim>\<open>try\<close> in \<^verbatim>\<open>get_json\<close>; \<open>now\<close> is \<^verbatim>\<open>int(time.time())\<close>.
  \<^verbatim>\<open>json.JSONDecodeError\<close> is a \<^verbatim>\<open>ValueError\<close>.
\<close>

definition get_json_try :: "'f pyenv \<Rightarrow> int \<Rightarrow> string \<Rightarrow> py_error + 'f CacheResult" where
  "get_json_try E now raw =
     (case loads E raw of
        None \<Rightarrow> Inl ValueError
      | Some obj \<Rightarrow>
          (case py_get obj ''stored_at'' (JInt 0) of
             Inl e \<Rightarrow> Inl e
           | Inr s \<Rightarrow>
               (case py_int E s of
                  Inl e \<Rightarrow> Inl e
                | Inr stored_at \<Rightarrow>
                    (case py_get obj ''payload'' JNull of
                       Inl e \<Rightarrow> Inl e
                     | Inr payload \<Rightarrow>
                         Inr \<lparr>value = payload, hit = True,
                              age_seconds = Some (max 0 (now - stored_at)), stale = False\<rparr>))))"

text \<open>
  \<^verbatim>\<open>get_json\<close>: the read \<^verbatim>\<open>raw = self.client.get(key)\<close> stands before the \<^verbatim>\<open>try\<close>, so
  what it raises leaves \<^verbatim>\<open>get_json\<close>; what the body of the \<^verbatim>\<open>try\<close> raises is caught
  by \<^verbatim>\<open>except Exception\<close>.
\<close>

definition get_json :: "'f pyenv \<Rightarrow> redis \<Rightarrow> int \<Rightarrow> int \<Rightarrow> string \<Rightarrow> py_error + 'f CacheResult" where
  "get_json E db t now key =
     (case client_get db t key of
        Inl e \<Rightarrow> Inl e
      | Inr None \<Rightarrow> Inr miss
      | Inr (Some raw) \<Rightarrow>
          if raw = [] then Inr miss
          else (case get_json_try E now raw of
                  Inr r \<Rightarrow> Inr r
                | Inl e \<Rightarrow> Inr miss))"

definition set_json :: "'f pyenv \<Rightarrow> redis \<Rightarrow> int \<Rightarrow> int \<Rightarrow> string \<Rightarrow> 'f json \<Rightarrow> int \<Rightarrow> py_error + redis" where
  "set_json E db t now key payload ttl_seconds =
     (let obj = JObj [(''stored_at'', JInt now), (''payload'', payload)]
      in client_setex db t key ttl_seconds (dumps E obj))"

definition acquire_lock :: "redis \<Rightarrow> int \<Rightarrow> string \<Rightarrow> int \<Rightarrow> py_error + (bool \<times> redis)" where
  "acquire_lock db t lock_key ttl_ms = client_set_nx_px db t lock_key ''1'' ttl_ms"

definition release_lock :: "redis \<Rightarrow> string \<Rightarrow> redis" where
  "release_lock db lock_key = client_delete db lock_key"

definition rounded_coords :: "'f pyenv \<Rightarrow> 'f \<Rightarrow> 'f \<Rightarrow> int \<Rightarrow> 'f \<times> 'f" where
  "rounded_coords E la lo decimals = (round_f E la decimals, round_f E lo decimals)"

section \<open>config.py\<close>

record settings =
  cache_ttl_current_seconds :: int
  cache_ttl_forecast_seconds :: int
  cache_coord_round_decimals :: int

definition default_settings :: settings where
  "default_settings =
     \<lparr>cache_ttl_current_seconds = 120, cache_ttl_forecast_seconds = 900,
      cache_coord_round_decimals = 2\<rparr>"

section \<open>The handlers' world\<close>

text \<open>
  What a handler can observe and change: the Redis store, the clock (milliseconds since
  the epoch, read by Redis for expiry and by \<^verbatim>\<open>time.time()\<close>), and a log of the calls it
  made on the cache and on the upstream client, oldest first. The log is how the
  theorems say that a call was or was not made; a \<open>SetJson\<close> event records the call,
  whether or not Redis accepted the write. Time passes while the upstream call is
  awaited; the calls on the cache take none.
\<close>

datatype event =
    GetJson string
  | AcquireLock string bool
  | GetCurrent
  | GetForecast
  | SetJson string
  | ReleaseLock string

record world =
  store :: redis
  clock :: int
  trace :: "event list"

definition log :: "event \<Rightarrow> world \<Rightarrow> world" where
  "log e w = w\<lparr>trace := trace w @ [e]\<rparr>"

text \<open>\<^verbatim>\<open>int(time.time())\<close>: truncation toward zero of the seconds since the epoch.\<close>

definition unix_time :: "world \<Rightarrow> int" where
  "unix_time w = (if 0 \<le> clock w then clock w div 1000 else - ((- clock w) div 1000))"

text \<open>
  \<^verbatim>\<open>OpenWeatherClient\<close>: each call returns the decoded body or raises
  (\<^verbatim>\<open>raise_for_status\<close> raises \<open>HTTPStatusError\<close>), and takes some milliseconds.
\<close>

record 'f OpenWeatherClient =
  get_current :: "'f \<Rightarrow> 'f \<Rightarrow> string \<Rightarrow> (py_error + 'f json) \<times> nat"
  get_forecast :: "'f \<Rightarrow> 'f \<Rightarrow> string \<Rightarrow> (py_error + 'f json) \<times> nat"

definition await_get_current ::
  "'f OpenWeatherClient \<Rightarrow> world \<Rightarrow> 'f \<Rightarrow> 'f \<Rightarrow> string \<Rightarrow> (py_error + 'f json) \<times> world" where
  "await_get_current ow w la lo u =
     (case get_current ow la lo u of
        (r, ms) \<Rightarrow> (r, log GetCurrent (w\<lparr>clock := clock w + int ms\<rparr>)))"

definition await_get_forecast ::
  "'f OpenWeatherClient \<Rightarrow> world \<Rightarrow> 'f \<Rightarrow> 'f \<Rightarrow> string \<Rightarrow> (py_error + 'f json) \<times> world" where
  "await_get_forecast ow w la lo u =
     (case get_forecast ow la lo u of
        (r, ms) \<Rightarrow> (r, log GetForecast (w\<lparr>clock := clock w + int ms\<rparr>)))"

text \<open>The module-level \<^verbatim>\<open>cache\<close> object of the handlers, acting on the world.\<close>

definition cache_get_json ::
  "'f pyenv \<Rightarrow> world \<Rightarrow> string \<Rightarrow> (py_error + 'f CacheResult) \<times> world" where
  "cache_get_json E w key =
     (get_json E (store w) (clock w) (unix_time w) key, log (GetJson key) w)"

definition cache_set_json ::
  "'f pyenv \<Rightarrow> world \<Rightarrow> string \<Rightarrow> 'f json \<Rightarrow> int \<Rightarrow> py_error option \<times> world" where
  "cache_set_json E w key payload ttl_seconds =
     (case set_json E (store w) (clock w) (unix_time w) key payload ttl_seconds of
        Inl e \<Rightarrow> (Some e, log (SetJson key) w)
      | Inr db \<Rightarrow> (None, log (SetJson key) (w\<lparr>store := db\<rparr>)))"

definition cache_acquire_lock :: "world \<Rightarrow> string \<Rightarrow> int \<Rightarrow> py_error + (bool \<times> world)" where
  "cache_acquire_lock w lock_key ttl_ms =
     (case acquire_lock (store w) (clock w) lock_key ttl_ms of
        Inl e \<Rightarrow> Inl e
      | Inr (b, db) \<Rightarrow> Inr (b, log (AcquireLock lock_key b) (w\<lparr>store := db\<rparr>)))"

definition cache_release_lock :: "world \<Rightarrow> string \<Rightarrow> world" where
  "cache_release_lock w lock_key =
     log (ReleaseLock lock_key) (w\<lparr>store := release_lock (store w) lock_key\<rparr>)"

text \<open>\<^verbatim>\<open>finally: if have_lock: cache.release_lock(lock_key)\<close>\<close>

definition finally_release :: "bool \<Rightarrow> string \<Rightarrow> world \<Rightarrow> world" where
  "finally_release have_lock lock_key w =
     (if have_lock then cache_release_lock w lock_key else w)"

text \<open>
  The f-strings \<^verbatim>\<open>f"{resource}:{units}:{rlat}:{rlon}"\<close> and \<^verbatim>\<open>f"lock:{key}"\<close>.
\<close>

definition cache_key :: "'f pyenv \<Rightarrow> string \<Rightarrow> string \<Rightarrow> 'f \<times> 'f \<Rightarrow> string" where
  "cache_key E resource u r =
     resource @ '':'' @ u @ '':'' @ str_f E (fst r) @ '':'' @ str_f E (snd r)"

definition lock_key_of :: "string \<Rightarrow> string" where
  "lock_key_of key = ''lock:'' @ key"

text \<open>\<^verbatim>\<open>s or e\<close> for an optional string \<open>s\<close>: \<^verbatim>\<open>None\<close> and the empty string are falsy.\<close>

fun str_or :: "string option \<Rightarrow> (py_error + 'f json) \<Rightarrow> py_error + 'f json" where
  "str_or None e = e"
| "str_or (Some s) e = (if s = [] then e else Inr (JStr s))"

section \<open>app/main.py\<close>

text \<open>
  The response expression of \<^verbatim>\<open>_fetch_current\<close>, the same for a cached and a fresh
  payload but for its \<^verbatim>\<open>CacheInfo\<close>. Python evaluates the arguments left to right.
\<close>

definition current_response ::
  "'f pyenv \<Rightarrow> 'f \<Rightarrow> 'f \<Rightarrow> string \<Rightarrow> string option \<Rightarrow> string option \<Rightarrow> 'f json \<Rightarrow> CacheInfo
     \<Rightarrow> py_error + 'f CurrentWeatherResponse" where
  "current_response E la lo u nm ctry payload ci =
     and_then (str_or nm (py_get payload ''name'' JNull)) (\<lambda>n.
     and_then (str_or ctry (and_then (py_get payload ''sys'' (JObj []))
                              (\<lambda>sys. py_get sys ''country'' JNull))) (\<lambda>c.
     and_then (mk_Location la lo n c) (\<lambda>loc.
     and_then (py_get payload ''dt'' JNull) (\<lambda>dt.
       mk_CurrentWeatherResponse E loc u payload dt ci))))"

text \<open>\<^verbatim>\<open>payload.get("city", {}) if isinstance(payload, dict) else {}\<close>\<close>

definition city_info_of :: "'f json \<Rightarrow> 'f json" where
  "city_info_of payload =
     (case payload of
        JObj kvs \<Rightarrow> (case map_of kvs ''city'' of None \<Rightarrow> JObj [] | Some v \<Rightarrow> v)
      | _ \<Rightarrow> JObj [])"

definition forecast_response ::
  "'f \<Rightarrow> 'f \<Rightarrow> string \<Rightarrow> string option \<Rightarrow> string option \<Rightarrow> 'f json \<Rightarrow> CacheInfo
     \<Rightarrow> py_error + 'f ForecastResponse" where
  "forecast_response la lo u nm ctry payload ci =
     and_then (str_or nm (py_get (city_info_of payload) ''name'' JNull)) (\<lambda>n.
     and_then (str_or ctry (py_get (city_info_of payload) ''country'' JNull)) (\<lambda>c.
     and_then (mk_Location la lo n c) (\<lambda>loc.
       mk_ForecastResponse loc u payload ci)))"

text \<open>
  The \<^verbatim>\<open>except\<close> clauses of both handlers: an \<^verbatim>\<open>HTTPException\<close> is raised again, an
  \<^verbatim>\<open>httpx.HTTPStatusError\<close> becomes a 502 with the response text, any other
  \<^verbatim>\<open>Exception\<close> a 502 with \<^verbatim>\<open>str(exc)\<close>.
\<close>

definition app_except :: "exn \<Rightarrow> exn" where
  "app_except x =
     (case x of
        HTTPException st d \<Rightarrow> HTTPException st d
      | Err e \<Rightarrow>
          (case e of
             HTTPStatusError st body \<Rightarrow> HTTPException 502 (Text body)
           | _ \<Rightarrow> HTTPException 502 (StrOf e)))"

text \<open>The body of the \<^verbatim>\<open>try\<close> of \<^verbatim>\<open>_fetch_current\<close>.\<close>

definition fetch_current_try ::
  "'f pyenv \<Rightarrow> settings \<Rightarrow> 'f OpenWeatherClient \<Rightarrow> world \<Rightarrow> bool \<Rightarrow> 'f \<Rightarrow> 'f \<Rightarrow> string
     \<Rightarrow> string option \<Rightarrow> string option \<Rightarrow> string
     \<Rightarrow> (exn + 'f CurrentWeatherResponse) \<times> world" where
  "fetch_current_try E S ow w have_lock la lo u nm ctry key =
     (if \<not> have_lock then
        (Inl (HTTPException 503 (Text ''Weather refresh in progress, try again'')), w)
      else
        (case await_get_current ow w la lo u of
           (Inl e, w1) \<Rightarrow> (Inl (Err e), w1)
         | (Inr data, w1) \<Rightarrow>
             (case cache_set_json E w1 key data (cache_ttl_current_seconds S) of
                (Some e, w2) \<Rightarrow> (Inl (Err e), w2)
              | (None, w2) \<Rightarrow>
                  (case current_response E la lo u nm ctry data
                          \<lparr>CacheInfo.hit = False, age_seconds = None, stale = False\<rparr> of
                     Inl e \<Rightarrow> (Inl (Err e), w2)
                   | Inr resp \<Rightarrow> (Inr resp, w2)))))"

definition fetch_current ::
  "'f pyenv \<Rightarrow> settings \<Rightarrow> 'f OpenWeatherClient \<Rightarrow> world \<Rightarrow> 'f \<Rightarrow> 'f \<Rightarrow> string
     \<Rightarrow> string option \<Rightarrow> string option
     \<Rightarrow> (exn + 'f CurrentWeatherResponse) \<times> world" where
  "fetch_current E S ow w la lo u nm ctry =
     (let key = cache_key E ''current'' u
                  (rounded_coords E la lo (cache_coord_round_decimals S));
          lock_key = lock_key_of key
      in case cache_get_json E w key of
           (Inl e, w1) \<Rightarrow> (Inl (Err e), w1)
         | (Inr cached, w1) \<Rightarrow>
             if hit cached \<and> value cached \<noteq> JNull then
               (case current_response E la lo u nm ctry (value cached)
                       \<lparr>CacheInfo.hit = True, age_seconds = age_seconds cached,
                        stale = stale cached\<rparr> of
                  Inl e \<Rightarrow> (Inl (Err e), w1)
                | Inr resp \<Rightarrow> (Inr resp, w1))
             else
               (case cache_acquire_lock w1 lock_key 10000 of
                  Inl e \<Rightarrow> (Inl (Err e), w1)
                | Inr (have_lock, w2) \<Rightarrow>
                    (case fetch_current_try E S ow w2 have_lock la lo u nm ctry key of
                       (r, w3) \<Rightarrow>
                         ((case r of Inl x \<Rightarrow> Inl (app_except x) | Inr resp \<Rightarrow> Inr resp),
                          finally_release have_lock lock_key w3))))"

text \<open>The body of the \<^verbatim>\<open>try\<close> of \<^verbatim>\<open>_fetch_forecast\<close>.\<close>

definition fetch_forecast_try ::
  "'f pyenv \<Rightarrow> settings \<Rightarrow> 'f OpenWeatherClient \<Rightarrow> world \<Rightarrow> bool \<Rightarrow> 'f \<Rightarrow> 'f \<Rightarrow> string
     \<Rightarrow> string option \<Rightarrow> string option \<Rightarrow> string
     \<Rightarrow> (exn + 'f ForecastResponse) \<times> world" where
  "fetch_forecast_try E S ow w have_lock la lo u nm ctry key =
     (if \<not> have_lock then
        (Inl (HTTPException 503 (Text ''Forecast refresh in progress, try again'')), w)
      else
        (case await_get_forecast ow w la lo u of
           (Inl e, w1) \<Rightarrow> (Inl (Err e), w1)
         | (Inr data, w1) \<Rightarrow>
             (case cache_set_json E w1 key data (cache_ttl_forecast_seconds S) of
                (Some e, w2) \<Rightarrow> (Inl (Err e), w2)
              | (None, w2) \<Rightarrow>
                  (case forecast_response la lo u nm ctry data
                          \<lparr>CacheInfo.hit = False, age_seconds = None, stale = False\<rparr> of
                     Inl e \<Rightarrow> (Inl (Err e), w2)
                   | Inr resp \<Rightarrow> (Inr resp, w2)))))"

definition fetch_forecast ::
  "'f pyenv \<Rightarrow> settings \<Rightarrow> 'f OpenWeatherClient \<Rightarrow> world \<Rightarrow> 'f \<Rightarrow> 'f \<Rightarrow> string
     \<Rightarrow> string option \<Rightarrow> string option
     \<Rightarrow> (exn + 'f ForecastResponse) \<times> world" where
  "fetch_forecast E S ow w la lo u nm ctry =
     (let key = cache_key E ''forecast'' u
                  (rounded_coords E la lo (cache_coord_round_decimals S));
          lock_key = lock_key_of key
      in case cache_get_json E w key of
           (Inl e, w1) \<Rightarrow> (Inl (Err e), w1)
         | (Inr cached, w1) \<Rightarrow>
             if hit cached \<and> value cached \<noteq> JNull then
               (case forecast_response la lo u nm ctry (value cached)
                       \<lparr>CacheInfo.hit = True, age_seconds = age_seconds cached,
                        stale = stale cached\<rparr> of
                  Inl e \<Rightarrow> (Inl (Err e), w1)
                | Inr resp \<Rightarrow> (Inr resp, w1))
             else
               (case cache_acquire_lock w1 lock_key 10000 of
                  Inl e \<Rightarrow> (Inl (Err e), w1)
                | Inr (have_lock, w2) \<Rightarrow>
                    (case fetch_forecast_try E S ow w2 have_lock la lo u nm ctry key of
                       (r, w3) \<Rightarrow>
                         ((case r of Inl x \<Rightarrow> Inl (app_except x) | Inr resp \<Rightarrow> Inr resp),
                          finally_release have_lock lock_key w3))))"

section \<open>main.py\<close>

text \<open>
  The handlers at the repository root do the same work inline. Their response
  expressions read the location from the payload alone.
\<close>

definition main_current_response ::
  "'f pyenv \<Rightarrow> 'f \<Rightarrow> 'f \<Rightarrow> string \<Rightarrow> 'f json \<Rightarrow> CacheInfo
     \<Rightarrow> py_error + 'f CurrentWeatherResponse" where
  "main_current_response E la lo u payload ci =
     and_then (py_get payload ''name'' JNull) (\<lambda>n.
     and_then (and_then (py_get payload ''sys'' (JObj []))
                 (\<lambda>sys. py_get sys ''country'' JNull)) (\<lambda>c.
     and_then (mk_Location la lo n c) (\<lambda>loc.
     and_then (py_get payload ''dt'' JNull) (\<lambda>dt.
       mk_CurrentWeatherResponse E loc u payload dt ci))))"

definition main_forecast_response ::
  "'f \<Rightarrow> 'f \<Rightarrow> string \<Rightarrow> 'f json \<Rightarrow> CacheInfo \<Rightarrow> py_error + 'f ForecastResponse" where
  "main_forecast_response la lo u payload ci =
     and_then (py_get (city_info_of payload) ''name'' JNull) (\<lambda>n.
     and_then (py_get (city_info_of payload) ''country'' JNull) (\<lambda>c.
     and_then (mk_Location la lo n c) (\<lambda>loc.
       mk_ForecastResponse loc u payload ci)))"

text \<open>
  The \<^verbatim>\<open>except\<close> clauses of this module: the first is
  \<^verbatim>\<open>except httpx.HTTPStatusError as e\<close>, and the module never imports \<^verbatim>\<open>httpx\<close> (the
  line carries \<^verbatim>\<open># type: ignore[name-defined]\<close>). Python evaluates the expression of an
  \<^verbatim>\<open>except\<close> clause when an exception reaches it, so every exception raised in the
  \<^verbatim>\<open>try\<close> body is replaced by a \<^verbatim>\<open>NameError\<close>, which no later clause of the same
  statement handles; the \<^verbatim>\<open>finally\<close> block runs and the \<^verbatim>\<open>NameError\<close> leaves the handler.
\<close>

definition main_except :: "exn \<Rightarrow> exn" where
  "main_except x = Err NameError"

definition main_current_weather_try ::
  "'f pyenv \<Rightarrow> settings \<Rightarrow> 'f OpenWeatherClient \<Rightarrow> world \<Rightarrow> bool \<Rightarrow> 'f \<Rightarrow> 'f \<Rightarrow> string
     \<Rightarrow> string \<Rightarrow> (exn + 'f CurrentWeatherResponse) \<times> world" where
  "main_current_weather_try E S ow w have_lock la lo u key =
     (if \<not> have_lock then
        (Inl (HTTPException 503 (Text ''Weather refresh in progress, try again'')), w)
      else
        (case await_get_current ow w la lo u of
           (Inl e, w1) \<Rightarrow> (Inl (Err e), w1)
         | (Inr data, w1) \<Rightarrow>
             (case cache_set_json E w1 key data (cache_ttl_current_seconds S) of
                (Some e, w2) \<Rightarrow> (Inl (Err e), w2)
              | (None, w2) \<Rightarrow>
                  (case main_current_response E la lo u data
                          \<lparr>CacheInfo.hit = False, age_seconds = None, stale = False\<rparr> of
                     Inl e \<Rightarrow> (Inl (Err e), w2)
                   | Inr resp \<Rightarrow> (Inr resp, w2)))))"

definition main_current_weather ::
  "'f pyenv \<Rightarrow> settings \<Rightarrow> 'f OpenWeatherClient \<Rightarrow> world \<Rightarrow> 'f \<Rightarrow> 'f \<Rightarrow> string
     \<Rightarrow> (exn + 'f CurrentWeatherResponse) \<times> world" where
  "main_current_weather E S ow w la lo u =
     (let key = cache_key E ''current'' u
                  (rounded_coords E la lo (cache_coord_round_decimals S));
          lock_key = lock_key_of key
      in case cache_get_json E w key of
           (Inl e, w1) \<Rightarrow> (Inl (Err e), w1)
         | (Inr cached, w1) \<Rightarrow>
             if hit cached \<and> value cached \<noteq> JNull then
               (case main_current_response E la lo u (value cached)
                       \<lparr>CacheInfo.hit = True, age_seconds = age_seconds cached,
                        stale = stale cached\<rparr> of
                  Inl e \<Rightarrow> (Inl (Err e), w1)
                | Inr resp \<Rightarrow> (Inr resp, w1))
             else
               (case cache_acquire_lock w1 lock_key 10000 of
                  Inl e \<Rightarrow> (Inl (Err e), w1)
                | Inr (have_lock, w2) \<Rightarrow>
                    (case main_current_weather_try E S ow w2 have_lock la lo u key of
                       (r, w3) \<Rightarrow>
                         ((case r of Inl x \<Rightarrow> Inl (main_except x) | Inr resp \<Rightarrow> Inr resp),
                          finally_release have_lock lock_key w3))))"

definition main_forecast_try ::
  "'f pyenv \<Rightarrow> settings \<Rightarrow> 'f OpenWeatherClient \<Rightarrow> world \<Rightarrow> bool \<Rightarrow> 'f \<Rightarrow> 'f \<Rightarrow> string
     \<Rightarrow> string \<Rightarrow> (exn + 'f ForecastResponse) \<times> world" where
  "main_forecast_try E S ow w have_lock la lo u key =
     (if \<not> have_lock then
        (Inl (HTTPException 503 (Text ''Forecast refresh in progress, try again'')), w)
      else
        (case await_get_forecast ow w la lo u of
           (Inl e, w1) \<Rightarrow> (Inl (Err e), w1)
         | (Inr data, w1) \<Rightarrow>
             (case cache_set_json E w1 key data (cache_ttl_forecast_seconds S) of
                (Some e, w2) \<Rightarrow> (Inl (Err e), w2)
              | (None, w2) \<Rightarrow>
                  (case main_forecast_response la lo u data
                          \<lparr>CacheInfo.hit = False, age_seconds = None, stale = False\<rparr> of
                     Inl e \<Rightarrow> (Inl (Err e), w2)
                   | Inr resp \<Rightarrow> (Inr resp, w2)))))"

definition main_forecast ::
  "'f pyenv \<Rightarrow> settings \<Rightarrow> 'f OpenWeatherClient \<Rightarrow> world \<Rightarrow> 'f \<Rightarrow> 'f \<Rightarrow> string
     \<Rightarrow> (exn + 'f ForecastResponse) \<times> world" where
  "main_forecast E S ow w la lo u =
     (let key = cache_key E ''forecast'' u
                  (rounded_coords E la lo (cache_coord_round_decimals S));
          lock_key = lock_key_of key
      in case cache_get_json E w key of
           (Inl e, w1) \<Rightarrow> (Inl (Err e), w1)
         | (Inr cached, w1) \<Rightarrow>
             if hit cached \<and> value cached \<noteq> JNull then
               (case main_forecast_response la lo u (value cached)
                       \<lparr>CacheInfo.hit = True, age_seconds = age_seconds cached,
                        stale = stale cached\<rparr> of
                  Inl e \<Rightarrow> (Inl (Err e), w1)
                | Inr resp \<Rightarrow> (Inr resp, w1))
             else
               (case cache_acquire_lock w1 lock_key 10000 of
                  Inl e \<Rightarrow> (Inl (Err e), w1)
                | Inr (have_lock, w2) \<Rightarrow>
                    (case main_forecast_try E S ow w2 have_lock la lo u key of
                       (r, w3) \<Rightarrow>
                         ((case r of Inl x \<Rightarrow> Inl (main_except x) | Inr resp \<Rightarrow> Inr resp),
                          finally_release have_lock lock_key w3))))"

section \<open>A concrete environment\<close>

text \<open>
  An environment to run the definitions in: a \<^verbatim>\<open>float\<close> is written as its decimal
  literal, already rounded, so that rounding and formatting leave it as it is; the JSON
  codec knows the records listed in \<open>sample_codec\<close> and rejects every other string.
\<close>

definition sample_payload :: "string json" where
  "sample_payload =
     JObj [(''name'', JStr ''London''), (''sys'', JObj [(''country'', JStr ''GB'')]),
           (''dt'', JInt 1700000000)]"

definition sample_forecast :: "string json" where
  "sample_forecast =
     JObj [(''city'', JObj [(''name'', JStr ''London''), (''country'', JStr ''GB'')])]"

definition sample_codec :: "(string \<times> string json) list" where
  \<open>sample_codec =
     [(''{"stored_at": 70, "payload": {"name": "London", "sys": {"country": "GB"}, "dt": 1700000000}}'',
         JObj [(''stored_at'', JInt 70), (''payload'', sample_payload)]),
      (''{"stored_at": 70}'', JObj [(''stored_at'', JInt 70)]),
      (''{"stored_at": 70, "payload": {"sys": null}}'',
         JObj [(''stored_at'', JInt 70), (''payload'', JObj [(''sys'', JNull)])]),
      (''{"stored_at": 70, "payload": 5}'',
         JObj [(''stored_at'', JInt 70), (''payload'', JInt 5)]),
      (''{"stored_at": 70, "payload": {"city": {"name": "London", "country": "GB"}}}'',
         JObj [(''stored_at'', JInt 70), (''payload'', sample_forecast)])]\<close>

definition sample_dumps :: "string json \<Rightarrow> string" where
  "sample_dumps j =
     (case map_of (map (\<lambda>(s, v). (v, s)) sample_codec) j of
        None \<Rightarrow> ''null''
      | Some s \<Rightarrow> s)"

definition sample_env :: "string pyenv" where
  "sample_env =
     \<lparr>loads = map_of sample_codec, dumps = sample_dumps,
      int_of_str = (\<lambda>s. Inl ValueError), int_of_float = (\<lambda>x. Inl ValueError),
      round_f = (\<lambda>x n. x), str_f = (\<lambda>x. x),
      int_field = (\<lambda>v. case v of JInt i \<Rightarrow> Some i | _ \<Rightarrow> None)\<rparr>"

definition sample_ow :: "string OpenWeatherClient" where
  "sample_ow =
     \<lparr>get_current = (\<lambda>la lo u. (Inr sample_payload, 250)),
      get_forecast = (\<lambda>la lo u. (Inr (JObj [(''city'', JObj [(''name'', JStr ''London'')])]), 250))\<rparr>"

definition failing_ow :: "string OpenWeatherClient" where
  "failing_ow =
     \<lparr>get_current = (\<lambda>la lo u. (Inl (HTTPStatusError 500 ''Internal Server Error''), 250)),
      get_forecast = (\<lambda>la lo u. (Inl (HTTPStatusError 500 ''Internal Server Error''), 250))\<rparr>"

text \<open>A store holding one value that never expires, at clock 100000 ms.\<close>

definition world_holding :: "string \<Rightarrow> redis_value \<Rightarrow> world" where
  "world_holding k v =
     \<lparr>store = [k \<mapsto> \<lparr>val = v, expires_at = None\<rparr>], clock = 100000, trace = []\<rparr>"

definition world_with :: "string \<Rightarrow> string \<Rightarrow> world" where
  "world_with k v = world_holding k (Utf8 v)"

definition empty_world :: world where
  "empty_world = \<lparr>store = Map.empty, clock = 100000, trace = []\<rparr>"

section \<open>Vocabulary of the statements\<close>

text \<open>
  The events a handler added to the log; the two cache keys; the test of the handlers'
  first \<^verbatim>\<open>if\<close>, \<^verbatim>\<open>cached.hit and cached.value is not None\<close>; whether the read of the cache
  returned a usable value, or returned one that is not usable (a miss; when the read
  raises, neither holds); and whether the lock key is free at the handler's clock
  reading.
\<close>

definition new_events :: "world \<Rightarrow> world \<Rightarrow> event list" where
  "new_events w w' = drop (length (trace w)) (trace w')"

definition current_key :: "'f pyenv \<Rightarrow> settings \<Rightarrow> 'f \<Rightarrow> 'f \<Rightarrow> string \<Rightarrow> string" where
  "current_key E S la lo u =
     cache_key E ''current'' u (rounded_coords E la lo (cache_coord_round_decimals S))"

definition forecast_key :: "'f pyenv \<Rightarrow> settings \<Rightarrow> 'f \<Rightarrow> 'f \<Rightarrow> string \<Rightarrow> string" where
  "forecast_key E S la lo u =
     cache_key E ''forecast'' u (rounded_coords E la lo (cache_coord_round_decimals S))"

definition usable :: "'f CacheResult \<Rightarrow> bool" where
  "usable c = (hit c \<and> value c \<noteq> JNull)"

definition cached_hit :: "'f pyenv \<Rightarrow> world \<Rightarrow> string \<Rightarrow> bool" where
  "cached_hit E w key =
     (case get_json E (store w) (clock w) (unix_time w) key of
        Inl e \<Rightarrow> False
      | Inr c \<Rightarrow> usable c)"

definition cached_miss :: "'f pyenv \<Rightarrow> world \<Rightarrow> string \<Rightarrow> bool" where
  "cached_miss E w key =
     (case get_json E (store w) (clock w) (unix_time w) key of
        Inl e \<Rightarrow> False
      | Inr c \<Rightarrow> \<not> usable c)"

definition lock_free :: "world \<Rightarrow> string \<Rightarrow> bool" where
  "lock_free w lock_key = (live (store w) (clock w) lock_key = None)"

text \<open>
  The shapes a response model accepts, in the words of the amended C2: \<open>entry_of d k\<close> is
  \<^verbatim>\<open>d.get(k)\<close> and \<open>dict_of d k\<close> is \<^verbatim>\<open>d.get(k, {})\<close> on a decoded \<^verbatim>\<open>dict\<close>; a value
  \<open>is_opt_str\<close> when it is \<^verbatim>\<open>None\<close> or a \<^verbatim>\<open>str\<close>; \<open>truthy s\<close> is the truth value of an
  optional string; and \<open>chosen s v\<close> is the \<^verbatim>\<open>Optional[str]\<close> field filled from \<^verbatim>\<open>s or v\<close>.
\<close>

definition entry_of :: "(string \<times> 'f json) list \<Rightarrow> string \<Rightarrow> 'f json" where
  "entry_of kvs k = (case map_of kvs k of None \<Rightarrow> JNull | Some v \<Rightarrow> v)"

definition dict_of :: "(string \<times> 'f json) list \<Rightarrow> string \<Rightarrow> 'f json" where
  "dict_of kvs k = (case map_of kvs k of None \<Rightarrow> JObj [] | Some v \<Rightarrow> v)"

definition is_opt_str :: "'f json \<Rightarrow> bool" where
  "is_opt_str v = (case v of JNull \<Rightarrow> True | JStr s \<Rightarrow> True | _ \<Rightarrow> False)"

definition opt_str_of :: "'f json \<Rightarrow> string option" where
  "opt_str_of v = (case v of JStr s \<Rightarrow> Some s | _ \<Rightarrow> None)"

definition truthy :: "string option \<Rightarrow> bool" where
  "truthy s = (case s of None \<Rightarrow> False | Some x \<Rightarrow> x \<noteq> [])"

definition chosen :: "string option \<Rightarrow> 'f json \<Rightarrow> string option" where
  "chosen s v = (if truthy s then s else opt_str_of v)"

section \<open>The keyed cache\<close>

lemma get_json_try_Inr_iff:
  "get_json_try E now raw = Inr r \<longleftrightarrow>
     (\<exists>kvs s. loads E raw = Some (JObj kvs) \<and>
        py_int E (case map_of kvs ''stored_at'' of None \<Rightarrow> JInt 0 | Some v \<Rightarrow> v) = Inr s \<and>
        r = \<lparr>value = (case map_of kvs ''payload'' of None \<Rightarrow> JNull | Some v \<Rightarrow> v), hit = True,
             age_seconds = Some (max 0 (now - s)), stale = False\<rparr>)"
proof (cases "loads E raw")
  case None
  then show ?thesis by (simp add: get_json_try_def)
next
  case (Some obj)
  then show ?thesis
    by (cases obj) (auto simp: get_json_try_def split: sum.splits)
qed

lemma get_json_Inl_iff: "get_json E db t now key = Inl e \<longleftrightarrow> client_get db t key = Inl e"
  by (auto simp: get_json_def split: sum.splits option.splits)

lemma get_json_cases:
  "(\<exists>e. client_get db t key = Inl e \<and> get_json E db t now key = Inl e) \<or>
   get_json E db t now key = Inr miss \<or>
   (\<exists>raw kvs s. client_get db t key = Inr (Some raw) \<and> raw \<noteq> [] \<and> loads E raw = Some (JObj kvs) \<and>
      py_int E (case map_of kvs ''stored_at'' of None \<Rightarrow> JInt 0 | Some v \<Rightarrow> v) = Inr s \<and>
      get_json E db t now key =
        Inr \<lparr>value = (case map_of kvs ''payload'' of None \<Rightarrow> JNull | Some v \<Rightarrow> v), hit = True,
             age_seconds = Some (max 0 (now - s)), stale = False\<rparr>)"
proof (cases "client_get db t key")
  case (Inl e)
  then show ?thesis by (simp add: get_json_def)
next
  case (Inr found)
  show ?thesis
  proof (cases found)
    case None
    with Inr show ?thesis by (simp add: get_json_def)
  next
    case (Some raw)
    show ?thesis
    proof (cases "raw = []")
      case True
      with Inr Some show ?thesis by (simp add: get_json_def)
    next
      case False
      show ?thesis
      proof (cases "get_json_try E now raw")
        case (Inl e)
        with Inr Some False show ?thesis by (simp add: get_json_def)
      next
        case r: (Inr r)
        then obtain kvs s where "loads E raw = Some (JObj kvs)"
          "py_int E (case map_of kvs ''stored_at'' of None \<Rightarrow> JInt 0 | Some v \<Rightarrow> v) = Inr s"
          "r = \<lparr>value = (case map_of kvs ''payload'' of None \<Rightarrow> JNull | Some v \<Rightarrow> v), hit = True,
               age_seconds = Some (max 0 (now - s)), stale = False\<rparr>"
          unfolding get_json_try_Inr_iff by blast
        moreover have "get_json E db t now key = Inr r"
          using Inr Some False r by (simp add: get_json_def)
        ultimately show ?thesis using Inr Some False by blast
      qed
    qed
  qed
qed

lemma get_json_record:
  assumes "client_get db t key = Inr (Some raw)" and "raw \<noteq> []"
    and "loads E raw = Some (JObj kvs)"
    and "py_int E (case map_of kvs ''stored_at'' of None \<Rightarrow> JInt 0 | Some v \<Rightarrow> v) = Inr s"
  shows "get_json E db t now key =
     Inr \<lparr>value = (case map_of kvs ''payload'' of None \<Rightarrow> JNull | Some v \<Rightarrow> v), hit = True,
          age_seconds = Some (max 0 (now - s)), stale = False\<rparr>"
proof -
  have "get_json_try E now raw =
     Inr \<lparr>value = (case map_of kvs ''payload'' of None \<Rightarrow> JNull | Some v \<Rightarrow> v), hit = True,
          age_seconds = Some (max 0 (now - s)), stale = False\<rparr>"
    unfolding get_json_try_Inr_iff using assms(3,4) by simp
  with assms(1,2) show ?thesis by (simp add: get_json_def)
qed

lemma miss_simps: "hit miss = False" "age_seconds miss = None" "value miss = JNull" "stale miss = False"
  by (simp_all add: miss_def)

lemma sample_roundtrip:
  "dumps sample_env (JObj [(''stored_at'', JInt 70), (''payload'', sample_payload)]) \<noteq> [] \<and>
   loads sample_env (dumps sample_env (JObj [(''stored_at'', JInt 70), (''payload'', sample_payload)])) =
     Some (JObj [(''stored_at'', JInt 70), (''payload'', sample_payload)])"
  by (simp add: sample_env_def sample_dumps_def sample_codec_def sample_payload_def sample_forecast_def)

text \<open>
  What \<open>get_json\<close> does with a value the client returns as text: the not-found result
  when no live value is under the key, when \<^verbatim>\<open>json.loads\<close> rejects the text, when it
  decodes to something that is not a \<^verbatim>\<open>dict\<close>, and when \<^verbatim>\<open>int()\<close> rejects the
  \<^verbatim>\<open>stored_at\<close> entry; whatever \<open>get_json\<close> returns is a hit or exactly the not-found
  result; and it raises exactly what the read of the store raises.
\<close>

lemma get_json_degrades_text:
  "(client_get db t key = Inr None \<longrightarrow>
      get_json E db t now key =
        Inr \<lparr>value = JNull, hit = False, age_seconds = None, stale = False\<rparr>) \<and>
   (\<forall>raw. client_get db t key = Inr (Some raw) \<and> loads E raw = None \<longrightarrow>
      get_json E db t now key =
        Inr \<lparr>value = JNull, hit = False, age_seconds = None, stale = False\<rparr>) \<and>
   (\<forall>raw j. client_get db t key = Inr (Some raw) \<and> loads E raw = Some j \<and> (\<forall>kvs. j \<noteq> JObj kvs) \<longrightarrow>
      get_json E db t now key =
        Inr \<lparr>value = JNull, hit = False, age_seconds = None, stale = False\<rparr>) \<and>
   (\<forall>raw kvs e. client_get db t key = Inr (Some raw) \<and> loads E raw = Some (JObj kvs) \<and>
        py_int E (case map_of kvs ''stored_at'' of None \<Rightarrow> JInt 0 | Some v \<Rightarrow> v) = Inl e \<longrightarrow>
      get_json E db t now key =
        Inr \<lparr>value = JNull, hit = False, age_seconds = None, stale = False\<rparr>) \<and>
   (\<forall>r. get_json E db t now key = Inr r \<longrightarrow>
      hit r \<or> r = \<lparr>value = JNull, hit = False, age_seconds = None, stale = False\<rparr>) \<and>
   (\<forall>e. get_json E db t now key = Inl e \<longleftrightarrow> client_get db t key = Inl e)"
  by (auto simp: get_json_def miss_def get_json_try_Inr_iff split: option.splits sum.splits)

text \<open>
  C5. The read \<^verbatim>\<open>raw = self.client.get(key)\<close> stands before the \<^verbatim>\<open>try\<close> of \<open>get_json\<close>, and
  the client decodes replies as UTF-8. Evaluated on a store whose value under the key
  is a string that is not valid UTF-8 (the bytes \<^verbatim>\<open>FF FE 7B\<close>, say): \<open>get_json\<close> raises
  \<^verbatim>\<open>UnicodeDecodeError\<close> where the claim promises the not-found result, and the
  exception leaves \<^verbatim>\<open>_fetch_current\<close> as well. A key that holds a list or a hash makes
  the read raise the server's \<^verbatim>\<open>WRONGTYPE\<close> error in the same way.
\<close>

theorem get_json_undecodable_raises:
  "get_json sample_env (store (world_holding ''current:metric:51.51:-0.13'' Undecodable))
     100000 100 ''current:metric:51.51:-0.13'' = Inl UnicodeDecodeError \<and>
   get_json sample_env (store (world_holding ''current:metric:51.51:-0.13'' OtherType))
     100000 100 ''current:metric:51.51:-0.13'' = Inl ResponseError \<and>
   fst (fetch_current sample_env default_settings sample_ow
          (world_holding ''current:metric:51.51:-0.13'' Undecodable)
          ''51.51'' ''-0.13'' ''metric'' None None) = Inl (Err UnicodeDecodeError)"
  by (simp add: get_json_def client_get_def live_def world_holding_def fetch_current_def
      cache_get_json_def cache_key_def rounded_coords_def sample_env_def default_settings_def
      unix_time_def Let_def)

text \<open>
  C6. When \<open>get_json\<close> reports a hit, its age is \<open>max 0 (now - stored_at)\<close> for the
  \<open>stored_at\<close> of the decoded record (\<open>0\<close> when the record has none); an age, when
  present, is never negative; and a \<open>get_json\<close> at the clock reading of a \<open>set_json\<close>
  that returned reports a hit with age \<open>0\<close> and the payload written, provided
  \<^verbatim>\<open>json.loads\<close> reads back what \<^verbatim>\<open>json.dumps\<close> wrote.
\<close>

theorem get_json_age:
  "(\<forall>r. get_json E db t now key = Inr r \<and> hit r \<longrightarrow>
      (\<exists>raw kvs s. client_get db t key = Inr (Some raw) \<and> loads E raw = Some (JObj kvs) \<and>
         py_int E (case map_of kvs ''stored_at'' of None \<Rightarrow> JInt 0 | Some v \<Rightarrow> v) = Inr s \<and>
         age_seconds r = Some (max 0 (now - s)))) \<and>
   (\<forall>r a. get_json E db t now key = Inr r \<and> age_seconds r = Some a \<longrightarrow> 0 \<le> a) \<and>
   (\<forall>db'. set_json E db t now key payload ttl = Inr db' \<and>
       dumps E (JObj [(''stored_at'', JInt now), (''payload'', payload)]) \<noteq> [] \<and>
       loads E (dumps E (JObj [(''stored_at'', JInt now), (''payload'', payload)])) =
         Some (JObj [(''stored_at'', JInt now), (''payload'', payload)]) \<longrightarrow>
       get_json E db' t now key =
         Inr \<lparr>value = payload, hit = True, age_seconds = Some 0, stale = False\<rparr>)"
proof (intro conjI allI impI)
  fix r assume "get_json E db t now key = Inr r \<and> hit r"
  with get_json_cases [of db t key E now]
  show "\<exists>raw kvs s. client_get db t key = Inr (Some raw) \<and> loads E raw = Some (JObj kvs) \<and>
         py_int E (case map_of kvs ''stored_at'' of None \<Rightarrow> JInt 0 | Some v \<Rightarrow> v) = Inr s \<and>
         age_seconds r = Some (max 0 (now - s))"
    by (elim disjE exE conjE) (auto simp: miss_simps)
next
  fix r a assume "get_json E db t now key = Inr r \<and> age_seconds r = Some a"
  with get_json_cases [of db t key E now]
  show "0 \<le> a"
    by (elim disjE exE conjE) (auto simp: miss_simps)
next
  fix db'
  define obj where "obj = JObj [(''stored_at'', JInt now), (''payload'', payload)]"
  assume "set_json E db t now key payload ttl = Inr db' \<and>
       dumps E (JObj [(''stored_at'', JInt now), (''payload'', payload)]) \<noteq> [] \<and>
       loads E (dumps E (JObj [(''stored_at'', JInt now), (''payload'', payload)])) =
         Some (JObj [(''stored_at'', JInt now), (''payload'', payload)])"
  then have s: "set_json E db t now key payload ttl = Inr db'"
    and ne: "dumps E obj \<noteq> []" and rt: "loads E (dumps E obj) = Some obj"
    by (simp_all add: obj_def)
  from s have ttl: "0 < ttl"
    and db': "db' = db(key \<mapsto> \<lparr>val = Utf8 (dumps E obj), expires_at = Some (t + ttl * 1000)\<rparr>)"
    by (auto simp: set_json_def client_setex_def obj_def split: if_splits)
  have g: "client_get db' t key = Inr (Some (dumps E obj))"
    using ttl db' by (simp add: client_get_def live_def)
  have "get_json_try E now (dumps E obj) =
      Inr \<lparr>value = payload, hit = True, age_seconds = Some 0, stale = False\<rparr>"
    unfolding get_json_try_def rt by (simp add: obj_def)
  with g ne show "get_json E db' t now key =
         Inr \<lparr>value = payload, hit = True, age_seconds = Some 0, stale = False\<rparr>"
    by (simp add: get_json_def)
qed

theorem get_json_age_witness:
  "set_json sample_env Map.empty 100000 70 ''k'' sample_payload 120 =
     Inr [''k'' \<mapsto> \<lparr>val = Utf8 (dumps sample_env (JObj [(''stored_at'', JInt 70), (''payload'', sample_payload)])),
                    expires_at = Some 220000\<rparr>] \<and>
   get_json sample_env
     [''k'' \<mapsto> \<lparr>val = Utf8 (dumps sample_env (JObj [(''stored_at'', JInt 70), (''payload'', sample_payload)])),
                    expires_at = Some 220000\<rparr>] 100000 70 ''k'' =
     Inr \<lparr>value = sample_payload, hit = True, age_seconds = Some 0, stale = False\<rparr>"
proof -
  have s: "set_json sample_env Map.empty 100000 70 ''k'' sample_payload 120 =
     Inr [''k'' \<mapsto> \<lparr>val = Utf8 (dumps sample_env (JObj [(''stored_at'', JInt 70), (''payload'', sample_payload)])),
                    expires_at = Some 220000\<rparr>]"
    by (simp add: set_json_def client_setex_def)
  from get_json_age [of sample_env Map.empty 100000 70 "''k''" sample_payload 120] s sample_roundtrip
  show ?thesis by blast
qed

section \<open>The lock\<close>

text \<open>
  C8. With a positive time to live, \<open>acquire_lock\<close> returns \<open>True\<close> and creates the
  entry when no live value is under the lock key, and returns \<open>False\<close> and leaves the
  store as it is when one is; so a second acquire before the entry expires returns
  \<open>False\<close>, and an acquire after \<open>release_lock\<close> succeeds.
\<close>

theorem acquire_lock_exclusive:
  assumes "0 < ttl_ms"
  shows "(client_get db t k = Inr None \<longrightarrow>
            acquire_lock db t k ttl_ms =
              Inr (True, db(k \<mapsto> \<lparr>val = Utf8 ''1'', expires_at = Some (t + ttl_ms)\<rparr>))) \<and>
         (client_get db t k \<noteq> Inr None \<longrightarrow> acquire_lock db t k ttl_ms = Inr (False, db)) \<and>
         (\<forall>db1 t2 ttl2. acquire_lock db t k ttl_ms = Inr (True, db1) \<and> t2 \<le> t + ttl_ms \<and> 0 < ttl2 \<longrightarrow>
            acquire_lock db1 t2 k ttl2 = Inr (False, db1)) \<and>
         (\<exists>db3. acquire_lock (release_lock db k) t k ttl_ms = Inr (True, db3))"
  using assms
  by (auto simp: acquire_lock_def client_set_nx_px_def client_get_def live_def release_lock_def
      client_delete_def split: option.splits if_splits redis_value.splits)

theorem acquire_lock_exclusive_witness:
  "acquire_lock Map.empty 100000 ''lock:k'' 10000 =
     Inr (True, [''lock:k'' \<mapsto> \<lparr>val = Utf8 ''1'', expires_at = Some 110000\<rparr>]) \<and>
   acquire_lock [''lock:k'' \<mapsto> \<lparr>val = Utf8 ''1'', expires_at = Some 110000\<rparr>] 105000 ''lock:k'' 10000 =
     Inr (False, [''lock:k'' \<mapsto> \<lparr>val = Utf8 ''1'', expires_at = Some 110000\<rparr>])"
proof -
  have p: "(0::int) < 10000" by simp
  have a: "client_get Map.empty 100000 ''lock:k'' = Inr None"
    by (simp add: client_get_def live_def)
  from acquire_lock_exclusive [OF p, of Map.empty 100000 "''lock:k''"] a
  have 1: "acquire_lock Map.empty 100000 ''lock:k'' 10000 =
     Inr (True, [''lock:k'' \<mapsto> \<lparr>val = Utf8 ''1'', expires_at = Some 110000\<rparr>])"
    by simp
  have "\<forall>db1 t2 ttl2. acquire_lock Map.empty 100000 ''lock:k'' 10000 = Inr (True, db1) \<and>
          t2 \<le> 100000 + 10000 \<and> 0 < ttl2 \<longrightarrow> acquire_lock db1 t2 ''lock:k'' ttl2 = Inr (False, db1)"
    using acquire_lock_exclusive [OF p, of Map.empty 100000 "''lock:k''"] by blast
  with 1 have 2: "acquire_lock [''lock:k'' \<mapsto> \<lparr>val = Utf8 ''1'', expires_at = Some 110000\<rparr>] 105000 ''lock:k'' 10000 =
     Inr (False, [''lock:k'' \<mapsto> \<lparr>val = Utf8 ''1'', expires_at = Some 110000\<rparr>])"
    by simp
  from 1 2 show ?thesis by simp
qed

section \<open>Paths of the handlers\<close>

lemma cached_miss_iff:
  "cached_miss E w key \<longleftrightarrow>
     (\<exists>c. get_json E (store w) (clock w) (unix_time w) key = Inr c \<and> \<not> usable c)"
  by (simp add: cached_miss_def split: sum.splits)

lemma cached_hit_iff:
  "cached_hit E w key \<longleftrightarrow>
     (\<exists>c. get_json E (store w) (clock w) (unix_time w) key = Inr c \<and> usable c)"
  by (simp add: cached_hit_def split: sum.splits)

lemma cache_acquire_lock_10000:
  "cache_acquire_lock w lk 10000 =
     Inr (lock_free w lk,
          log (AcquireLock lk (lock_free w lk))
            (if lock_free w lk
             then w\<lparr>store := (store w)(lk \<mapsto> \<lparr>val = Utf8 ''1'', expires_at = Some (clock w + 10000)\<rparr>)\<rparr>
             else w))"
  by (auto simp: cache_acquire_lock_def acquire_lock_def client_set_nx_px_def lock_free_def
      split: option.splits)

lemma trace_log [simp]: "trace (log e w) = trace w @ [e]"
  by (simp add: log_def)

lemma store_log [simp]: "store (log e w) = store w"
  by (simp add: log_def)

lemma clock_log [simp]: "clock (log e w) = clock w"
  by (simp add: log_def)

lemma lock_free_log [simp]: "lock_free (log e w) lk = lock_free w lk"
  by (simp add: lock_free_def)

lemma lock_key_neq [simp]: "lock_key_of key \<noteq> key" "key \<noteq> lock_key_of key"
  by (auto simp: lock_key_of_def dest: arg_cong [where f = length])

lemma new_events_append: "trace w' = trace w @ evs \<Longrightarrow> new_events w w' = evs"
  by (simp add: new_events_def)

lemma acquire_lock_False_iff:
  "acquire_lock (store w) (clock w) lk 10000 = Inr (False, db') \<longleftrightarrow> \<not> lock_free w lk \<and> db' = store w"
  by (auto simp: acquire_lock_def client_set_nx_px_def lock_free_def
      split: option.splits)

lemma acquire_lock_True_imp:
  "acquire_lock (store w) (clock w) lk 10000 = Inr (True, db') \<Longrightarrow> lock_free w lk"
  by (auto simp: acquire_lock_def client_set_nx_px_def lock_free_def
      split: option.splits)

lemma app_except_Err:
  "app_except (Err e) =
     HTTPException 502 (case e of HTTPStatusError st body \<Rightarrow> Text body | _ \<Rightarrow> StrOf e)"
  by (cases e) (simp_all add: app_except_def)

lemma fetch_current_try_trace:
  "trace (snd (fetch_current_try E S ow w b la lo u nm ctry key)) =
     trace w @ (if b then GetCurrent #
                  (case fst (get_current ow la lo u) of Inl e \<Rightarrow> [] | Inr d \<Rightarrow> [SetJson key])
                else [])"
  by (auto simp: fetch_current_try_def await_get_current_def cache_set_json_def
      split: prod.splits sum.splits option.splits)

lemma fetch_current_try_upstream_error:
  "get_current ow la lo u = (Inl e, ms) \<Longrightarrow>
     fetch_current_try E S ow w True la lo u nm ctry key =
       (Inl (Err e), log GetCurrent (w\<lparr>clock := clock w + int ms\<rparr>))"
  by (simp add: fetch_current_try_def await_get_current_def)

lemma fetch_current_read_raises:
  "get_json E (store w) (clock w) (unix_time w) (current_key E S la lo u) = Inl e \<Longrightarrow>
     (fetch_current E S ow w la lo u nm ctry) = (Inl (Err e), log (GetJson (current_key E S la lo u)) w)"
  unfolding fetch_current_def Let_def current_key_def [symmetric]
  by (simp add: cache_get_json_def)

lemma fetch_current_hit:
  "get_json E (store w) (clock w) (unix_time w) (current_key E S la lo u) = Inr c \<Longrightarrow> usable c \<Longrightarrow>
     (fetch_current E S ow w la lo u nm ctry) =
       ((case current_response E la lo u nm ctry (value c)
                \<lparr>CacheInfo.hit = True, age_seconds = age_seconds c, stale = stale c\<rparr> of
           Inl e \<Rightarrow> Inl (Err e)
         | Inr resp \<Rightarrow> Inr resp),
        log (GetJson (current_key E S la lo u)) w)"
  unfolding fetch_current_def Let_def current_key_def [symmetric]
  by (simp add: cache_get_json_def usable_def [symmetric] split: sum.splits)

lemma fetch_current_busy:
  assumes "cached_miss E w (current_key E S la lo u)" and "\<not> lock_free w (lock_key_of (current_key E S la lo u))"
  shows "(fetch_current E S ow w la lo u nm ctry) =
       (Inl (HTTPException 503 (Text ''Weather refresh in progress, try again'')),
        log (AcquireLock (lock_key_of (current_key E S la lo u)) False) (log (GetJson (current_key E S la lo u)) w))"
proof -
  from assms(1) obtain c where g: "get_json E (store w) (clock w) (unix_time w) (current_key E S la lo u) = Inr c" and n: "\<not> usable c"
    unfolding cached_miss_iff by blast
  show ?thesis
    unfolding fetch_current_def Let_def current_key_def [symmetric]
    using n assms(2)
    by (simp add: cache_get_json_def g usable_def [symmetric] cache_acquire_lock_10000
        finally_release_def fetch_current_try_def app_except_def)
qed

lemma fetch_current_upstream_error:
  assumes "cached_miss E w (current_key E S la lo u)" and "lock_free w (lock_key_of (current_key E S la lo u))"
    and "get_current ow la lo u = (Inl e, ms)"
  shows "fst (fetch_current E S ow w la lo u nm ctry) = Inl (app_except (Err e)) \<and>
     store (snd (fetch_current E S ow w la lo u nm ctry)) = (store w)((lock_key_of (current_key E S la lo u)) := None) \<and>
     trace (snd (fetch_current E S ow w la lo u nm ctry)) =
       trace w @ [GetJson (current_key E S la lo u), AcquireLock (lock_key_of (current_key E S la lo u)) True, GetCurrent, ReleaseLock (lock_key_of (current_key E S la lo u))]"
proof -
  from assms(1) obtain c where g: "get_json E (store w) (clock w) (unix_time w) (current_key E S la lo u) = Inr c" and n: "\<not> usable c"
    unfolding cached_miss_iff by blast
  show ?thesis
    unfolding fetch_current_def Let_def current_key_def [symmetric]
    using n assms(2)
    by (simp add: cache_get_json_def g usable_def [symmetric] cache_acquire_lock_10000
        finally_release_def cache_release_lock_def release_lock_def client_delete_def
        fetch_current_try_upstream_error [OF assms(3)] app_except_def)
qed

lemma fetch_current_trace:
  "trace (snd (fetch_current E S ow w la lo u nm ctry)) =
     trace w @ GetJson (current_key E S la lo u) #
       (if cached_miss E w (current_key E S la lo u)
        then AcquireLock (lock_key_of (current_key E S la lo u)) (lock_free w (lock_key_of (current_key E S la lo u))) #
             (if lock_free w (lock_key_of (current_key E S la lo u))
              then GetCurrent #
                (case fst (get_current ow la lo u) of
                   Inl e \<Rightarrow> []
                 | Inr d \<Rightarrow> [SetJson (current_key E S la lo u)])
                @ [ReleaseLock (lock_key_of (current_key E S la lo u))]
              else [])
        else [])"
proof (cases "get_json E (store w) (clock w) (unix_time w) (current_key E S la lo u)")
  case (Inl e)
  then show ?thesis
    by (simp add: fetch_current_read_raises cached_miss_def)
next
  case (Inr c)
  show ?thesis
  proof (cases "usable c")
    case True
    with Inr show ?thesis
      by (simp add: fetch_current_hit cached_miss_def split: sum.splits)
  next
    case False
    with Inr have m: "cached_miss E w (current_key E S la lo u)"
      by (simp add: cached_miss_def)
    show ?thesis
      unfolding fetch_current_def Let_def current_key_def [symmetric]
      using False m
      by (simp add: cache_get_json_def Inr usable_def [symmetric] cache_acquire_lock_10000
          finally_release_def cache_release_lock_def fetch_current_try_trace split_beta)
  qed
qed

lemma fetch_current_released:
  assumes "cached_miss E w (current_key E S la lo u)" and "lock_free w (lock_key_of (current_key E S la lo u))"
  shows "store (snd (fetch_current E S ow w la lo u nm ctry)) (lock_key_of (current_key E S la lo u)) = None"
proof -
  from assms(1) obtain c where g: "get_json E (store w) (clock w) (unix_time w) (current_key E S la lo u) = Inr c" and n: "\<not> usable c"
    unfolding cached_miss_iff by blast
  show ?thesis
    unfolding fetch_current_def Let_def current_key_def [symmetric]
    using n assms(2)
    by (simp add: cache_get_json_def g usable_def [symmetric] cache_acquire_lock_10000
        finally_release_def cache_release_lock_def release_lock_def client_delete_def split_beta)
qed

lemma fetch_forecast_try_trace:
  "trace (snd (fetch_forecast_try E S ow w b la lo u nm ctry key)) =
     trace w @ (if b then GetForecast #
                  (case fst (get_forecast ow la lo u) of Inl e \<Rightarrow> [] | Inr d \<Rightarrow> [SetJson key])
                else [])"
  by (auto simp: fetch_forecast_try_def await_get_forecast_def cache_set_json_def
      split: prod.splits sum.splits option.splits)

lemma fetch_forecast_try_upstream_error:
  "get_forecast ow la lo u = (Inl e, ms) \<Longrightarrow>
     fetch_forecast_try E S ow w True la lo u nm ctry key =
       (Inl (Err e), log GetForecast (w\<lparr>clock := clock w + int ms\<rparr>))"
  by (simp add: fetch_forecast_try_def await_get_forecast_def)

lemma fetch_forecast_read_raises:
  "get_json E (store w) (clock w) (unix_time w) (forecast_key E S la lo u) = Inl e \<Longrightarrow>
     (fetch_forecast E S ow w la lo u nm ctry) = (Inl (Err e), log (GetJson (forecast_key E S la lo u)) w)"
  unfolding fetch_forecast_def Let_def forecast_key_def [symmetric]
  by (simp add: cache_get_json_def)

lemma fetch_forecast_hit:
  "get_json E (store w) (clock w) (unix_time w) (forecast_key E S la lo u) = Inr c \<Longrightarrow> usable c \<Longrightarrow>
     (fetch_forecast E S ow w la lo u nm ctry) =
       ((case forecast_response la lo u nm ctry (value c)
                \<lparr>CacheInfo.hit = True, age_seconds = age_seconds c, stale = stale c\<rparr> of
           Inl e \<Rightarrow> Inl (Err e)
         | Inr resp \<Rightarrow> Inr resp),
        log (GetJson (forecast_key E S la lo u)) w)"
  unfolding fetch_forecast_def Let_def forecast_key_def [symmetric]
  by (simp add: cache_get_json_def usable_def [symmetric] split: sum.splits)

lemma fetch_forecast_busy:
  assumes "cached_miss E w (forecast_key E S la lo u)" and "\<not> lock_free w (lock_key_of (forecast_key E S la lo u))"
  shows "(fetch_forecast E S ow w la lo u nm ctry) =
       (Inl (HTTPException 503 (Text ''Forecast refresh in progress, try again'')),
        log (AcquireLock (lock_key_of (forecast_key E S la lo u)) False) (log (GetJson (forecast_key E S la lo u)) w))"
proof -
  from assms(1) obtain c where g: "get_json E (store w) (clock w) (unix_time w) (forecast_key E S la lo u) = Inr c" and n: "\<not> usable c"
    unfolding cached_miss_iff by blast
  show ?thesis
    unfolding fetch_forecast_def Let_def forecast_key_def [symmetric]
    using n assms(2)
    by (simp add: cache_get_json_def g usable_def [symmetric] cache_acquire_lock_10000
        finally_release_def fetch_forecast_try_def app_except_def)
qed

lemma fetch_forecast_upstream_error:
  assumes "cached_miss E w (forecast_key E S la lo u)" and "lock_free w (lock_key_of (forecast_key E S la lo u))"
    and "get_forecast ow la lo u = (Inl e, ms)"
  shows "fst (fetch_forecast E S ow w la lo u nm ctry) = Inl (app_except (Err e)) \<and>
     store (snd (fetch_forecast E S ow w la lo u nm ctry)) = (store w)((lock_key_of (forecast_key E S la lo u)) := None) \<and>
     trace (snd (fetch_forecast E S ow w la lo u nm ctry)) =
       trace w @ [GetJson (forecast_key E S la lo u), AcquireLock (lock_key_of (forecast_key E S la lo u)) True, GetForecast, ReleaseLock (lock_key_of (forecast_key E S la lo u))]"
proof -
  from assms(1) obtain c where g: "get_json E (store w) (clock w) (unix_time w) (forecast_key E S la lo u) = Inr c" and n: "\<not> usable c"
    unfolding cached_miss_iff by blast
  show ?thesis
    unfolding fetch_forecast_def Let_def forecast_key_def [symmetric]
    using n assms(2)
    by (simp add: cache_get_json_def g usable_def [symmetric] cache_acquire_lock_10000
        finally_release_def cache_release_lock_def release_lock_def client_delete_def
        fetch_forecast_try_upstream_error [OF assms(3)] app_except_def)
qed

lemma fetch_forecast_trace:
  "trace (snd (fetch_forecast E S ow w la lo u nm ctry)) =
     trace w @ GetJson (forecast_key E S la lo u) #
       (if cached_miss E w (forecast_key E S la lo u)
        then AcquireLock (lock_key_of (forecast_key E S la lo u)) (lock_free w (lock_key_of (forecast_key E S la lo u))) #
             (if lock_free w (lock_key_of (forecast_key E S la lo u))
              then GetForecast #
                (case fst (get_forecast ow la lo u) of
                   Inl e \<Rightarrow> []
                 | Inr d \<Rightarrow> [SetJson (forecast_key E S la lo u)])
                @ [ReleaseLock (lock_key_of (forecast_key E S la lo u))]
              else [])
        else [])"
proof (cases "get_json E (store w) (clock w) (unix_time w) (forecast_key E S la lo u)")
  case (Inl e)
  then show ?thesis
    by (simp add: fetch_forecast_read_raises cached_miss_def)
next
  case (Inr c)
  show ?thesis
  proof (cases "usable c")
    case True
    with Inr show ?thesis
      by (simp add: fetch_forecast_hit cached_miss_def split: sum.splits)
  next
    case False
    with Inr have m: "cached_miss E w (forecast_key E S la lo u)"
      by (simp add: cached_miss_def)
    show ?thesis
      unfolding fetch_forecast_def Let_def forecast_key_def [symmetric]
      using False m
      by (simp add: cache_get_json_def Inr usable_def [symmetric] cache_acquire_lock_10000
          finally_release_def cache_release_lock_def fetch_forecast_try_trace split_beta)
  qed
qed

lemma fetch_forecast_released:
  assumes "cached_miss E w (forecast_key E S la lo u)" and "lock_free w (lock_key_of (forecast_key E S la lo u))"
  shows "store (snd (fetch_forecast E S ow w la lo u nm ctry)) (lock_key_of (forecast_key E S la lo u)) = None"
proof -
  from assms(1) obtain c where g: "get_json E (store w) (clock w) (unix_time w) (forecast_key E S la lo u) = Inr c" and n: "\<not> usable c"
    unfolding cached_miss_iff by blast
  show ?thesis
    unfolding fetch_forecast_def Let_def forecast_key_def [symmetric]
    using n assms(2)
    by (simp add: cache_get_json_def g usable_def [symmetric] cache_acquire_lock_10000
        finally_release_def cache_release_lock_def release_lock_def client_delete_def split_beta)
qed

lemma main_current_weather_try_trace:
  "trace (snd (main_current_weather_try E S ow w b la lo u key)) =
     trace w @ (if b then GetCurrent #
                  (case fst (get_current ow la lo u) of Inl e \<Rightarrow> [] | Inr d \<Rightarrow> [SetJson key])
                else [])"
  by (auto simp: main_current_weather_try_def await_get_current_def cache_set_json_def
      split: prod.splits sum.splits option.splits)

lemma main_current_weather_try_upstream_error:
  "get_current ow la lo u = (Inl e, ms) \<Longrightarrow>
     main_current_weather_try E S ow w True la lo u key =
       (Inl (Err e), log GetCurrent (w\<lparr>clock := clock w + int ms\<rparr>))"
  by (simp add: main_current_weather_try_def await_get_current_def)

lemma main_current_weather_read_raises:
  "get_json E (store w) (clock w) (unix_time w) (current_key E S la lo u) = Inl e \<Longrightarrow>
     (main_current_weather E S ow w la lo u) = (Inl (Err e), log (GetJson (current_key E S la lo u)) w)"
  unfolding main_current_weather_def Let_def current_key_def [symmetric]
  by (simp add: cache_get_json_def)

lemma main_current_weather_hit:
  "get_json E (store w) (clock w) (unix_time w) (current_key E S la lo u) = Inr c \<Longrightarrow> usable c \<Longrightarrow>
     (main_current_weather E S ow w la lo u) =
       ((case main_current_response E la lo u (value c)
                \<lparr>CacheInfo.hit = True, age_seconds = age_seconds c, stale = stale c\<rparr> of
           Inl e \<Rightarrow> Inl (Err e)
         | Inr resp \<Rightarrow> Inr resp),
        log (GetJson (current_key E S la lo u)) w)"
  unfolding main_current_weather_def Let_def current_key_def [symmetric]
  by (simp add: cache_get_json_def usable_def [symmetric] split: sum.splits)

lemma main_current_weather_busy:
  assumes "cached_miss E w (current_key E S la lo u)" and "\<not> lock_free w (lock_key_of (current_key E S la lo u))"
  shows "(main_current_weather E S ow w la lo u) =
       (Inl (Err NameError),
        log (AcquireLock (lock_key_of (current_key E S la lo u)) False) (log (GetJson (current_key E S la lo u)) w))"
proof -
  from assms(1) obtain c where g: "get_json E (store w) (clock w) (unix_time w) (current_key E S la lo u) = Inr c" and n: "\<not> usable c"
    unfolding cached_miss_iff by blast
  show ?thesis
    unfolding main_current_weather_def Let_def current_key_def [symmetric]
    using n assms(2)
    by (simp add: cache_get_json_def g usable_def [symmetric] cache_acquire_lock_10000
        finally_release_def main_current_weather_try_def main_except_def)
qed

lemma main_current_weather_upstream_error:
  assumes "cached_miss E w (current_key E S la lo u)" and "lock_free w (lock_key_of (current_key E S la lo u))"
    and "get_current ow la lo u = (Inl e, ms)"
  shows "fst (main_current_weather E S ow w la lo u) = Inl (Err NameError) \<and>
     store (snd (main_current_weather E S ow w la lo u)) = (store w)((lock_key_of (current_key E S la lo u)) := None) \<and>
     trace (snd (main_current_weather E S ow w la lo u)) =
       trace w @ [GetJson (current_key E S la lo u), AcquireLock (lock_key_of (current_key E S la lo u)) True, GetCurrent, ReleaseLock (lock_key_of (current_key E S la lo u))]"
proof -
  from assms(1) obtain c where g: "get_json E (store w) (clock w) (unix_time w) (current_key E S la lo u) = Inr c" and n: "\<not> usable c"
    unfolding cached_miss_iff by blast
  show ?thesis
    unfolding main_current_weather_def Let_def current_key_def [symmetric]
    using n assms(2)
    by (simp add: cache_get_json_def g usable_def [symmetric] cache_acquire_lock_10000
        finally_release_def cache_release_lock_def release_lock_def client_delete_def
        main_current_weather_try_upstream_error [OF assms(3)] main_except_def)
qed

lemma main_current_weather_trace:
  "trace (snd (main_current_weather E S ow w la lo u)) =
     trace w @ GetJson (current_key E S la lo u) #
       (if cached_miss E w (current_key E S la lo u)
        then AcquireLock (lock_key_of (current_key E S la lo u)) (lock_free w (lock_key_of (current_key E S la lo u))) #
             (if lock_free w (lock_key_of (current_key E S la lo u))
              then GetCurrent #
                (case fst (get_current ow la lo u) of
                   Inl e \<Rightarrow> []
                 | Inr d \<Rightarrow> [SetJson (current_key E S la lo u)])
                @ [ReleaseLock (lock_key_of (current_key E S la lo u))]
              else [])
        else [])"
proof (cases "get_json E (store w) (clock w) (unix_time w) (current_key E S la lo u)")
  case (Inl e)
  then show ?thesis
    by (simp add: main_current_weather_read_raises cached_miss_def)
next
  case (Inr c)
  show ?thesis
  proof (cases "usable c")
    case True
    with Inr show ?thesis
      by (simp add: main_current_weather_hit cached_miss_def split: sum.splits)
  next
    case False
    with Inr have m: "cached_miss E w (current_key E S la lo u)"
      by (simp add: cached_miss_def)
    show ?thesis
      unfolding main_current_weather_def Let_def current_key_def [symmetric]
      using False m
      by (simp add: cache_get_json_def Inr usable_def [symmetric] cache_acquire_lock_10000
          finally_release_def cache_release_lock_def main_current_weather_try_trace split_beta)
  qed
qed

lemma main_current_weather_released:
  assumes "cached_miss E w (current_key E S la lo u)" and "lock_free w (lock_key_of (current_key E S la lo u))"
  shows "store (snd (main_current_weather E S ow w la lo u)) (lock_key_of (current_key E S la lo u)) = None"
proof -
  from assms(1) obtain c where g: "get_json E (store w) (clock w) (unix_time w) (current_key E S la lo u) = Inr c" and n: "\<not> usable c"
    unfolding cached_miss_iff by blast
  show ?thesis
    unfolding main_current_weather_def Let_def current_key_def [symmetric]
    using n assms(2)
    by (simp add: cache_get_json_def g usable_def [symmetric] cache_acquire_lock_10000
        finally_release_def cache_release_lock_def release_lock_def client_delete_def split_beta)
qed

lemma main_forecast_try_trace:
  "trace (snd (main_forecast_try E S ow w b la lo u key)) =
     trace w @ (if b then GetForecast #
                  (case fst (get_forecast ow la lo u) of Inl e \<Rightarrow> [] | Inr d \<Rightarrow> [SetJson key])
                else [])"
  by (auto simp: main_forecast_try_def await_get_forecast_def cache_set_json_def
      split: prod.splits sum.splits option.splits)

lemma main_forecast_try_upstream_error:
  "get_forecast ow la lo u = (Inl e, ms) \<Longrightarrow>
     main_forecast_try E S ow w True la lo u key =
       (Inl (Err e), log GetForecast (w\<lparr>clock := clock w + int ms\<rparr>))"
  by (simp add: main_forecast_try_def await_get_forecast_def)

lemma main_forecast_read_raises:
  "get_json E (store w) (clock w) (unix_time w) (forecast_key E S la lo u) = Inl e \<Longrightarrow>
     (main_forecast E S ow w la lo u) = (Inl (Err e), log (GetJson (forecast_key E S la lo u)) w)"
  unfolding main_forecast_def Let_def forecast_key_def [symmetric]
  by (simp add: cache_get_json_def)

lemma main_forecast_hit:
  "get_json E (store w) (clock w) (unix_time w) (forecast_key E S la lo u) = Inr c \<Longrightarrow> usable c \<Longrightarrow>
     (main_forecast E S ow w la lo u) =
       ((case main_forecast_response la lo u (value c)
                \<lparr>CacheInfo.hit = True, age_seconds = age_seconds c, stale = stale c\<rparr> of
           Inl e \<Rightarrow> Inl (Err e)
         | Inr resp \<Rightarrow> Inr resp),
        log (GetJson (forecast_key E S la lo u)) w)"
  unfolding main_forecast_def Let_def forecast_key_def [symmetric]
  by (simp add: cache_get_json_def usable_def [symmetric] split: sum.splits)

lemma main_forecast_busy:
  assumes "cached_miss E w (forecast_key E S la lo u)" and "\<not> lock_free w (lock_key_of (forecast_key E S la lo u))"
  shows "(main_forecast E S ow w la lo u) =
       (Inl (Err NameError),
        log (AcquireLock (lock_key_of (forecast_key E S la lo u)) False) (log (GetJson (forecast_key E S la lo u)) w))"
proof -
  from assms(1) obtain c where g: "get_json E (store w) (clock w) (unix_time w) (forecast_key E S la lo u) = Inr c" and n: "\<not> usable c"
    unfolding cached_miss_iff by blast
  show ?thesis
    unfolding main_forecast_def Let_def forecast_key_def [symmetric]
    using n assms(2)
    by (simp add: cache_get_json_def g usable_def [symmetric] cache_acquire_lock_10000
        finally_release_def main_forecast_try_def main_except_def)
qed

lemma main_forecast_upstream_error:
  assumes "cached_miss E w (forecast_key E S la lo u)" and "lock_free w (lock_key_of (forecast_key E S la lo u))"
    and "get_forecast ow la lo u = (Inl e, ms)"
  shows "fst (main_forecast E S ow w la lo u) = Inl (Err NameError) \<and>
     store (snd (main_forecast E S ow w la lo u)) = (store w)((lock_key_of (forecast_key E S la lo u)) := None) \<and>
     trace (snd (main_forecast E S ow w la lo u)) =
       trace w @ [GetJson (forecast_key E S la lo u), AcquireLock (lock_key_of (forecast_key E S la lo u)) True, GetForecast, ReleaseLock (lock_key_of (forecast_key E S la lo u))]"
proof -
  from assms(1) obtain c where g: "get_json E (store w) (clock w) (unix_time w) (forecast_key E S la lo u) = Inr c" and n: "\<not> usable c"
    unfolding cached_miss_iff by blast
  show ?thesis
    unfolding main_forecast_def Let_def forecast_key_def [symmetric]
    using n assms(2)
    by (simp add: cache_get_json_def g usable_def [symmetric] cache_acquire_lock_10000
        finally_release_def cache_release_lock_def release_lock_def client_delete_def
        main_forecast_try_upstream_error [OF assms(3)] main_except_def)
qed

lemma main_forecast_trace:
  "trace (snd (main_forecast E S ow w la lo u)) =
     trace w @ GetJson (forecast_key E S la lo u) #
       (if cached_miss E w (forecast_key E S la lo u)
        then AcquireLock (lock_key_of (forecast_key E S la lo u)) (lock_free w (lock_key_of (forecast_key E S la lo u))) #
             (if lock_free w (lock_key_of (forecast_key E S la lo u))
              then GetForecast #
                (case fst (get_forecast ow la lo u) of
                   Inl e \<Rightarrow> []
                 | Inr d \<Rightarrow> [SetJson (forecast_key E S la lo u)])
                @ [ReleaseLock (lock_key_of (forecast_key E S la lo u))]
              else [])
        else [])"
proof (cases "get_json E (store w) (clock w) (unix_time w) (forecast_key E S la lo u)")
  case (Inl e)
  then show ?thesis
    by (simp add: main_forecast_read_raises cached_miss_def)
next
  case (Inr c)
  show ?thesis
  proof (cases "usable c")
    case True
    with Inr show ?thesis
      by (simp add: main_forecast_hit cached_miss_def split: sum.splits)
  next
    case False
    with Inr have m: "cached_miss E w (forecast_key E S la lo u)"
      by (simp add: cached_miss_def)
    show ?thesis
      unfolding main_forecast_def Let_def forecast_key_def [symmetric]
      using False m
      by (simp add: cache_get_json_def Inr usable_def [symmetric] cache_acquire_lock_10000
          finally_release_def cache_release_lock_def main_forecast_try_trace split_beta)
  qed
qed

lemma main_forecast_released:
  assumes "cached_miss E w (forecast_key E S la lo u)" and "lock_free w (lock_key_of (forecast_key E S la lo u))"
  shows "store (snd (main_forecast E S ow w la lo u)) (lock_key_of (forecast_key E S la lo u)) = None"
proof -
  from assms(1) obtain c where g: "get_json E (store w) (clock w) (unix_time w) (forecast_key E S la lo u) = Inr c" and n: "\<not> usable c"
    unfolding cached_miss_iff by blast
  show ?thesis
    unfolding main_forecast_def Let_def forecast_key_def [symmetric]
    using n assms(2)
    by (simp add: cache_get_json_def g usable_def [symmetric] cache_acquire_lock_10000
        finally_release_def cache_release_lock_def release_lock_def client_delete_def split_beta)
qed

lemma and_then_Inr [simp]: "and_then (Inr x) f = f x"
  by (simp add: and_then_def)

lemma and_then_Inl [simp]: "and_then (Inl e) f = Inl e"
  by (simp add: and_then_def)

lemma str_or_chosen:
  "truthy s \<or> is_opt_str v \<Longrightarrow>
     (\<exists>j. str_or s (Inr v) = Inr j \<and> opt_str_field j = Inr (chosen s v))"
  by (cases s; cases v)
     (auto simp: truthy_def is_opt_str_def chosen_def opt_str_of_def)

lemma str_or_truthy:
  "truthy s \<Longrightarrow> (\<exists>j. (\<forall>e. str_or s e = Inr j) \<and> opt_str_field j = Inr (chosen s v))"
  by (cases s) (auto simp: truthy_def chosen_def)

lemma py_get_entry: "py_get (JObj kvs) k JNull = Inr (entry_of kvs k)"
  by (simp add: entry_of_def)

lemma py_get_dict: "py_get (JObj kvs) k (JObj []) = Inr (dict_of kvs k)"
  by (simp add: dict_of_def)

lemma current_response_shape:
  assumes u: "u = ''metric'' \<or> u = ''imperial''"
    and n: "truthy nm \<or> is_opt_str (entry_of pk ''name'')"
    and c: "truthy ctry \<or> (dict_of pk ''sys'' = JObj sk \<and> is_opt_str (entry_of sk ''country''))"
    and t: "entry_of pk ''dt'' = JNull \<or> int_field E (entry_of pk ''dt'') \<noteq> None"
  shows "current_response E la lo u nm ctry (JObj pk) ci =
     Inr \<lparr>CurrentWeatherResponse.location =
            \<lparr>lat = la, lon = lo, Location.name = chosen nm (entry_of pk ''name''),
             country = chosen ctry (entry_of sk ''country'')\<rparr>,
          CurrentWeatherResponse.units = u, observed_at = None, current = JObj pk,
          CurrentWeatherResponse.provider =
            \<lparr>ProviderInfo.name = ''openweather'',
             data_timestamp =
               (if entry_of pk ''dt'' = JNull then None else int_field E (entry_of pk ''dt''))\<rparr>,
          CurrentWeatherResponse.cache = ci\<rparr>"
proof -
  from str_or_chosen [OF n] obtain jn where
    jn: "str_or nm (Inr (entry_of pk ''name'')) = Inr jn"
      "opt_str_field jn = Inr (chosen nm (entry_of pk ''name''))"
    by blast
  have "\<exists>jc. str_or ctry (and_then (py_get (JObj pk) ''sys'' (JObj []))
                             (\<lambda>sys. py_get sys ''country'' JNull)) = Inr jc \<and>
             opt_str_field jc = Inr (chosen ctry (entry_of sk ''country''))"
  proof (cases "truthy ctry")
    case True
    from str_or_truthy [OF True, of "entry_of sk ''country''"] show ?thesis by blast
  next
    case False
    with c have d: "dict_of pk ''sys'' = JObj sk" and o: "is_opt_str (entry_of sk ''country'')"
      by simp_all
    have "str_or ctry (and_then (py_get (JObj pk) ''sys'' (JObj []))
                             (\<lambda>sys. py_get sys ''country'' JNull)) =
          str_or ctry (Inr (entry_of sk ''country''))"
      by (simp only: py_get_dict d and_then_Inr py_get_entry)
    with str_or_chosen [of ctry "entry_of sk ''country''"] o
    show ?thesis by (simp only:) blast
  qed
  then obtain jc where
    jc: "str_or ctry (and_then (py_get (JObj pk) ''sys'' (JObj []))
                             (\<lambda>sys. py_get sys ''country'' JNull)) = Inr jc"
      "opt_str_field jc = Inr (chosen ctry (entry_of sk ''country''))"
    by blast
  have ts: "opt_int_field E (entry_of pk ''dt'') =
      Inr (if entry_of pk ''dt'' = JNull then None else int_field E (entry_of pk ''dt''))"
    using t by (auto simp: opt_int_field_def split: option.splits)
  have uf: "units_field u = Inr u"
    using u by (auto simp: units_field_def)
  show ?thesis
    by (simp only: current_response_def py_get_entry jn jc and_then_Inr mk_Location_def
        mk_CurrentWeatherResponse_def dict_field.simps ts uf)
qed

lemma forecast_response_shape:
  assumes u: "u = ''metric'' \<or> u = ''imperial''"
    and n: "truthy nm \<or> (dict_of pk ''city'' = JObj ck \<and> is_opt_str (entry_of ck ''name''))"
    and c: "truthy ctry \<or> (dict_of pk ''city'' = JObj ck \<and> is_opt_str (entry_of ck ''country''))"
  shows "forecast_response la lo u nm ctry (JObj pk) ci =
     Inr \<lparr>ForecastResponse.location =
            \<lparr>lat = la, lon = lo, Location.name = chosen nm (entry_of ck ''name''),
             country = chosen ctry (entry_of ck ''country'')\<rparr>,
          ForecastResponse.units = u, forecast = JObj pk,
          ForecastResponse.provider =
            \<lparr>ProviderInfo.name = ''openweather'', data_timestamp = None\<rparr>,
          ForecastResponse.cache = ci\<rparr>"
proof -
  have ci: "city_info_of (JObj pk) = dict_of pk ''city''"
    by (simp add: city_info_of_def dict_of_def)
  have "\<exists>jn. str_or nm (py_get (dict_of pk ''city'') ''name'' JNull) = Inr jn \<and>
             opt_str_field jn = Inr (chosen nm (entry_of ck ''name''))"
  proof (cases "truthy nm")
    case True
    from str_or_truthy [OF True, of "entry_of ck ''name''"] show ?thesis by blast
  next
    case False
    with n have d: "dict_of pk ''city'' = JObj ck" and o: "is_opt_str (entry_of ck ''name'')"
      by simp_all
    have "str_or nm (py_get (dict_of pk ''city'') ''name'' JNull) =
          str_or nm (Inr (entry_of ck ''name''))"
      by (simp only: d py_get_entry)
    with str_or_chosen [of nm "entry_of ck ''name''"] o
    show ?thesis by (simp only:) blast
  qed
  then obtain jn where
    jn: "str_or nm (py_get (dict_of pk ''city'') ''name'' JNull) = Inr jn"
      "opt_str_field jn = Inr (chosen nm (entry_of ck ''name''))"
    by blast
  have "\<exists>jc. str_or ctry (py_get (dict_of pk ''city'') ''country'' JNull) = Inr jc \<and>
             opt_str_field jc = Inr (chosen ctry (entry_of ck ''country''))"
  proof (cases "truthy ctry")
    case True
    from str_or_truthy [OF True, of "entry_of ck ''country''"] show ?thesis by blast
  next
    case False
    with c have d: "dict_of pk ''city'' = JObj ck" and o: "is_opt_str (entry_of ck ''country'')"
      by simp_all
    have "str_or ctry (py_get (dict_of pk ''city'') ''country'' JNull) =
          str_or ctry (Inr (entry_of ck ''country''))"
      by (simp only: d py_get_entry)
    with str_or_chosen [of ctry "entry_of ck ''country''"] o
    show ?thesis by (simp only:) blast
  qed
  then obtain jc where
    jc: "str_or ctry (py_get (dict_of pk ''city'') ''country'' JNull) = Inr jc"
      "opt_str_field jc = Inr (chosen ctry (entry_of ck ''country''))"
    by blast
  have uf: "units_field u = Inr u"
    using u by (auto simp: units_field_def)
  show ?thesis
    by (simp only: forecast_response_def ci jn jc and_then_Inr mk_Location_def
        mk_ForecastResponse_def dict_field.simps uf)
qed

lemma sample_current_key:
  "current_key sample_env default_settings ''51.51'' ''-0.13'' ''metric'' = ''current:metric:51.51:-0.13''"
  by (simp add: current_key_def cache_key_def rounded_coords_def sample_env_def)

lemma sample_forecast_key:
  "forecast_key sample_env default_settings ''51.51'' ''-0.13'' ''metric'' = ''forecast:metric:51.51:-0.13''"
  by (simp add: forecast_key_def cache_key_def rounded_coords_def sample_env_def)

lemma empty_world_miss: "cached_miss E empty_world k"
  by (simp add: cached_miss_def usable_def empty_world_def get_json_def client_get_def live_def
      miss_def)

lemma empty_world_free: "lock_free empty_world k"
  by (simp add: lock_free_def empty_world_def live_def)

lemma world_with_other_miss: "k \<noteq> k' \<Longrightarrow> cached_miss E (world_with k' v) k"
  by (simp add: cached_miss_def usable_def world_with_def world_holding_def get_json_def
      client_get_def live_def miss_def)

lemma world_with_held: "\<not> lock_free (world_with k v) k"
  by (simp add: lock_free_def world_with_def world_holding_def live_def)


lemma world_with_get:
  "client_get (store (world_with k v)) (clock (world_with k v)) k = Inr (Some v)"
  by (simp add: world_with_def world_holding_def client_get_def live_def)

lemma world_with_time: "unix_time (world_with k v) = 100"
  by (simp add: unix_time_def world_with_def world_holding_def)

lemma sample_loads_sys_null:
  \<open>loads sample_env ''{"stored_at": 70, "payload": {"sys": null}}'' =
     Some (JObj [(''stored_at'', JInt 70), (''payload'', JObj [(''sys'', JNull)])])\<close>
  by (simp add: sample_env_def sample_codec_def)


lemma sample_loads_current:
  \<open>loads sample_env
     ''{"stored_at": 70, "payload": {"name": "London", "sys": {"country": "GB"}, "dt": 1700000000}}'' =
     Some (JObj [(''stored_at'', JInt 70),
                 (''payload'',
                  JObj [(''name'', JStr ''London''), (''sys'', JObj [(''country'', JStr ''GB'')]),
                        (''dt'', JInt 1700000000)])])\<close>
  by (simp add: sample_env_def sample_codec_def sample_payload_def)

lemma sample_loads_forecast:
  \<open>loads sample_env
     ''{"stored_at": 70, "payload": {"city": {"name": "London", "country": "GB"}}}'' =
     Some (JObj [(''stored_at'', JInt 70),
                 (''payload'',
                  JObj [(''city'', JObj [(''name'', JStr ''London''), (''country'', JStr ''GB'')])])])\<close>
  by (simp add: sample_env_def sample_codec_def sample_forecast_def)

lemma sys_null_response:
  "current_response sample_env ''51.51'' ''-0.13'' ''metric'' None None (JObj [(''sys'', JNull)]) ci =
     Inl AttributeError"
  by (simp add: current_response_def and_then_def)

section \<open>Release of the lock\<close>

lemma fetch_current_release:
  "AcquireLock (lock_key_of (current_key E S la lo u)) True
        \<in> set (new_events w (snd (fetch_current E S ow w la lo u nm ctry))) \<longrightarrow>
      last (new_events w (snd (fetch_current E S ow w la lo u nm ctry))) =
        ReleaseLock (lock_key_of (current_key E S la lo u)) \<and>
      store (snd (fetch_current E S ow w la lo u nm ctry)) (lock_key_of (current_key E S la lo u)) = None"
proof (intro impI)
  assume a: "AcquireLock (lock_key_of (current_key E S la lo u)) True
        \<in> set (new_events w (snd (fetch_current E S ow w la lo u nm ctry)))"
  have ev: "new_events w (snd (fetch_current E S ow w la lo u nm ctry)) =
     GetJson (current_key E S la lo u) #
       (if cached_miss E w (current_key E S la lo u)
        then AcquireLock (lock_key_of (current_key E S la lo u)) (lock_free w (lock_key_of (current_key E S la lo u))) #
             (if lock_free w (lock_key_of (current_key E S la lo u))
              then GetCurrent #
                (case fst (get_current ow la lo u) of
                   Inl e \<Rightarrow> []
                 | Inr d \<Rightarrow> [SetJson (current_key E S la lo u)])
                @ [ReleaseLock (lock_key_of (current_key E S la lo u))]
              else [])
        else [])"
    by (rule new_events_append) (rule fetch_current_trace)
  from a have m: "cached_miss E w (current_key E S la lo u)" and f: "lock_free w (lock_key_of (current_key E S la lo u))"
    unfolding ev by (auto split: if_splits sum.splits)
  from m f have "last (new_events w (snd (fetch_current E S ow w la lo u nm ctry))) = ReleaseLock (lock_key_of (current_key E S la lo u))"
    unfolding ev by simp
  with fetch_current_released [OF m f]
  show "last (new_events w (snd (fetch_current E S ow w la lo u nm ctry))) =
        ReleaseLock (lock_key_of (current_key E S la lo u)) \<and>
      store (snd (fetch_current E S ow w la lo u nm ctry)) (lock_key_of (current_key E S la lo u)) = None"
    by simp
qed

lemma fetch_forecast_release:
  "AcquireLock (lock_key_of (forecast_key E S la lo u)) True
        \<in> set (new_events w (snd (fetch_forecast E S ow w la lo u nm ctry))) \<longrightarrow>
      last (new_events w (snd (fetch_forecast E S ow w la lo u nm ctry))) =
        ReleaseLock (lock_key_of (forecast_key E S la lo u)) \<and>
      store (snd (fetch_forecast E S ow w la lo u nm ctry)) (lock_key_of (forecast_key E S la lo u)) = None"
proof (intro impI)
  assume a: "AcquireLock (lock_key_of (forecast_key E S la lo u)) True
        \<in> set (new_events w (snd (fetch_forecast E S ow w la lo u nm ctry)))"
  have ev: "new_events w (snd (fetch_forecast E S ow w la lo u nm ctry)) =
     GetJson (forecast_key E S la lo u) #
       (if cached_miss E w (forecast_key E S la lo u)
        then AcquireLock (lock_key_of (forecast_key E S la lo u)) (lock_free w (lock_key_of (forecast_key E S la lo u))) #
             (if lock_free w (lock_key_of (forecast_key E S la lo u))
              then GetForecast #
                (case fst (get_forecast ow la lo u) of
                   Inl e \<Rightarrow> []
                 | Inr d \<Rightarrow> [SetJson (forecast_key E S la lo u)])
                @ [ReleaseLock (lock_key_of (forecast_key E S la lo u))]
              else [])
        else [])"
    by (rule new_events_append) (rule fetch_forecast_trace)
  from a have m: "cached_miss E w (forecast_key E S la lo u)" and f: "lock_free w (lock_key_of (forecast_key E S la lo u))"
    unfolding ev by (auto split: if_splits sum.splits)
  from m f have "last (new_events w (snd (fetch_forecast E S ow w la lo u nm ctry))) = ReleaseLock (lock_key_of (forecast_key E S la lo u))"
    unfolding ev by simp
  with fetch_forecast_released [OF m f]
  show "last (new_events w (snd (fetch_forecast E S ow w la lo u nm ctry))) =
        ReleaseLock (lock_key_of (forecast_key E S la lo u)) \<and>
      store (snd (fetch_forecast E S ow w la lo u nm ctry)) (lock_key_of (forecast_key E S la lo u)) = None"
    by simp
qed

lemma main_current_weather_release:
  "AcquireLock (lock_key_of (current_key E S la lo u)) True
        \<in> set (new_events w (snd (main_current_weather E S ow w la lo u))) \<longrightarrow>
      last (new_events w (snd (main_current_weather E S ow w la lo u))) =
        ReleaseLock (lock_key_of (current_key E S la lo u)) \<and>
      store (snd (main_current_weather E S ow w la lo u)) (lock_key_of (current_key E S la lo u)) = None"
proof (intro impI)
  assume a: "AcquireLock (lock_key_of (current_key E S la lo u)) True
        \<in> set (new_events w (snd (main_current_weather E S ow w la lo u)))"
  have ev: "new_events w (snd (main_current_weather E S ow w la lo u)) =
     GetJson (current_key E S la lo u) #
       (if cached_miss E w (current_key E S la lo u)
        then AcquireLock (lock_key_of (current_key E S la lo u)) (lock_free w (lock_key_of (current_key E S la lo u))) #
             (if lock_free w (lock_key_of (current_key E S la lo u))
              then GetCurrent #
                (case fst (get_current ow la lo u) of
                   Inl e \<Rightarrow> []
                 | Inr d \<Rightarrow> [SetJson (current_key E S la lo u)])
                @ [ReleaseLock (lock_key_of (current_key E S la lo u))]
              else [])
        else [])"
    by (rule new_events_append) (rule main_current_weather_trace)
  from a have m: "cached_miss E w (current_key E S la lo u)" and f: "lock_free w (lock_key_of (current_key E S la lo u))"
    unfolding ev by (auto split: if_splits sum.splits)
  from m f have "last (new_events w (snd (main_current_weather E S ow w la lo u))) = ReleaseLock (lock_key_of (current_key E S la lo u))"
    unfolding ev by simp
  with main_current_weather_released [OF m f]
  show "last (new_events w (snd (main_current_weather E S ow w la lo u))) =
        ReleaseLock (lock_key_of (current_key E S la lo u)) \<and>
      store (snd (main_current_weather E S ow w la lo u)) (lock_key_of (current_key E S la lo u)) = None"
    by simp
qed

lemma main_forecast_release:
  "AcquireLock (lock_key_of (forecast_key E S la lo u)) True
        \<in> set (new_events w (snd (main_forecast E S ow w la lo u))) \<longrightarrow>
      last (new_events w (snd (main_forecast E S ow w la lo u))) =
        ReleaseLock (lock_key_of (forecast_key E S la lo u)) \<and>
      store (snd (main_forecast E S ow w la lo u)) (lock_key_of (forecast_key E S la lo u)) = None"
proof (intro impI)
  assume a: "AcquireLock (lock_key_of (forecast_key E S la lo u)) True
        \<in> set (new_events w (snd (main_forecast E S ow w la lo u)))"
  have ev: "new_events w (snd (main_forecast E S ow w la lo u)) =
     GetJson (forecast_key E S la lo u) #
       (if cached_miss E w (forecast_key E S la lo u)
        then AcquireLock (lock_key_of (forecast_key E S la lo u)) (lock_free w (lock_key_of (forecast_key E S la lo u))) #
             (if lock_free w (lock_key_of (forecast_key E S la lo u))
              then GetForecast #
                (case fst (get_forecast ow la lo u) of
                   Inl e \<Rightarrow> []
                 | Inr d \<Rightarrow> [SetJson (forecast_key E S la lo u)])
                @ [ReleaseLock (lock_key_of (forecast_key E S la lo u))]
              else [])
        else [])"
    by (rule new_events_append) (rule main_forecast_trace)
  from a have m: "cached_miss E w (forecast_key E S la lo u)" and f: "lock_free w (lock_key_of (forecast_key E S la lo u))"
    unfolding ev by (auto split: if_splits sum.splits)
  from m f have "last (new_events w (snd (main_forecast E S ow w la lo u))) = ReleaseLock (lock_key_of (forecast_key E S la lo u))"
    unfolding ev by simp
  with main_forecast_released [OF m f]
  show "last (new_events w (snd (main_forecast E S ow w la lo u))) =
        ReleaseLock (lock_key_of (forecast_key E S la lo u)) \<and>
      store (snd (main_forecast E S ow w la lo u)) (lock_key_of (forecast_key E S la lo u)) = None"
    by simp
qed

text \<open>
  C1. In each of the four handlers (\<^verbatim>\<open>_fetch_current\<close> and \<^verbatim>\<open>_fetch_forecast\<close> of
  app/main.py, \<^verbatim>\<open>current_weather\<close> and \<^verbatim>\<open>forecast\<close> of main.py), whenever \<open>acquire_lock\<close>
  returned \<open>True\<close> the last call the handler makes is \<open>release_lock\<close> on the lock key,
  and the lock key is absent from the store when the handler ends. This holds for every
  upstream client, environment and setting, so on every exit: a fresh result, an
  upstream HTTP error, any other upstream failure, a failing cache write and a
  response that cannot be built.
\<close>

theorem release_on_every_exit:
  "(AcquireLock (lock_key_of (current_key E S la lo u)) True
        \<in> set (new_events w (snd (fetch_current E S ow w la lo u nm ctry))) \<longrightarrow>
      last (new_events w (snd (fetch_current E S ow w la lo u nm ctry))) =
        ReleaseLock (lock_key_of (current_key E S la lo u)) \<and>
      store (snd (fetch_current E S ow w la lo u nm ctry)) (lock_key_of (current_key E S la lo u)) = None) \<and>
   (AcquireLock (lock_key_of (forecast_key E S la lo u)) True
        \<in> set (new_events w (snd (fetch_forecast E S ow w la lo u nm ctry))) \<longrightarrow>
      last (new_events w (snd (fetch_forecast E S ow w la lo u nm ctry))) =
        ReleaseLock (lock_key_of (forecast_key E S la lo u)) \<and>
      store (snd (fetch_forecast E S ow w la lo u nm ctry)) (lock_key_of (forecast_key E S la lo u)) = None) \<and>
   (AcquireLock (lock_key_of (current_key E S la lo u)) True
        \<in> set (new_events w (snd (main_current_weather E S ow w la lo u))) \<longrightarrow>
      last (new_events w (snd (main_current_weather E S ow w la lo u))) =
        ReleaseLock (lock_key_of (current_key E S la lo u)) \<and>
      store (snd (main_current_weather E S ow w la lo u)) (lock_key_of (current_key E S la lo u)) = None) \<and>
   (AcquireLock (lock_key_of (forecast_key E S la lo u)) True
        \<in> set (new_events w (snd (main_forecast E S ow w la lo u))) \<longrightarrow>
      last (new_events w (snd (main_forecast E S ow w la lo u))) =
        ReleaseLock (lock_key_of (forecast_key E S la lo u)) \<and>
      store (snd (main_forecast E S ow w la lo u)) (lock_key_of (forecast_key E S la lo u)) = None)"
  by (intro conjI) (rule fetch_current_release fetch_forecast_release main_current_weather_release main_forecast_release)+

theorem release_on_every_exit_witness:
  "AcquireLock ''lock:current:metric:51.51:-0.13'' True
     \<in> set (new_events empty_world
               (snd (fetch_current sample_env default_settings failing_ow empty_world
                       ''51.51'' ''-0.13'' ''metric'' None None))) \<and>
   last (new_events empty_world
           (snd (fetch_current sample_env default_settings failing_ow empty_world
                   ''51.51'' ''-0.13'' ''metric'' None None))) =
     ReleaseLock ''lock:current:metric:51.51:-0.13'' \<and>
   store (snd (fetch_current sample_env default_settings failing_ow empty_world
                 ''51.51'' ''-0.13'' ''metric'' None None))
     ''lock:current:metric:51.51:-0.13'' = None"
proof -
  have lk: "lock_key_of (current_key sample_env default_settings ''51.51'' ''-0.13'' ''metric'') =
      ''lock:current:metric:51.51:-0.13''"
    by (simp add: sample_current_key lock_key_of_def)
  have mem: "AcquireLock (lock_key_of (current_key sample_env default_settings ''51.51'' ''-0.13'' ''metric'')) True
     \<in> set (new_events empty_world
               (snd (fetch_current sample_env default_settings failing_ow empty_world
                       ''51.51'' ''-0.13'' ''metric'' None None)))"
    by (simp add: new_events_append [OF fetch_current_trace] empty_world_miss empty_world_free)
  from release_on_every_exit [where E = sample_env and S = default_settings and ow = failing_ow
      and w = empty_world and la = "''51.51''" and lo = "''-0.13''" and u = "''metric''"
      and nm = None and ctry = None] mem
  show ?thesis unfolding lk by blast
qed

section \<open>The cached path\<close>

lemma fetch_current_cached:
  assumes a: "client_get (store w) (clock w) (current_key E S la lo u) = Inr (Some raw)" "raw \<noteq> []"
    "loads E raw = Some (JObj kvs)"
    "py_int E (case map_of kvs ''stored_at'' of None \<Rightarrow> JInt 0 | Some v \<Rightarrow> v) = Inr s"
    and p: "map_of kvs ''payload'' = Some p" "p \<noteq> JNull"
  shows "fetch_current E S ow w la lo u nm ctry =
       ((case current_response E la lo u nm ctry p
               \<lparr>CacheInfo.hit = True, age_seconds = Some (max 0 (unix_time w - s)), stale = False\<rparr> of
          Inl e \<Rightarrow> Inl (Err e)
        | Inr r \<Rightarrow> Inr r), log (GetJson (current_key E S la lo u)) w)"
proof -
  have g: "get_json E (store w) (clock w) (unix_time w) (current_key E S la lo u) =
     Inr \<lparr>value = p, hit = True, age_seconds = Some (max 0 (unix_time w - s)), stale = False\<rparr>"
    using get_json_record [OF a, of "unix_time w"] p by simp
  have us: "usable \<lparr>value = p, hit = True, age_seconds = Some (max 0 (unix_time w - s)), stale = False\<rparr>"
    using p by (simp add: usable_def)
  from fetch_current_hit [OF g us] show ?thesis by simp
qed

lemma fetch_current_cached_quiet:
  "client_get (store w) (clock w) (current_key E S la lo u) = Inr (Some raw) \<and> raw \<noteq> [] \<and>
   loads E raw = Some (JObj kvs) \<and>
   py_int E (case map_of kvs ''stored_at'' of None \<Rightarrow> JInt 0 | Some v \<Rightarrow> v) = Inr s \<and>
   map_of kvs ''payload'' = Some p \<and> p \<noteq> JNull \<longrightarrow>
     store (snd (fetch_current E S ow w la lo u nm ctry)) = store w \<and>
     new_events w (snd (fetch_current E S ow w la lo u nm ctry)) = [GetJson (current_key E S la lo u)]"
proof (intro impI, elim conjE)
  assume a: "client_get (store w) (clock w) (current_key E S la lo u) = Inr (Some raw)" "raw \<noteq> []"
    "loads E raw = Some (JObj kvs)"
    "py_int E (case map_of kvs ''stored_at'' of None \<Rightarrow> JInt 0 | Some v \<Rightarrow> v) = Inr s"
    and p: "map_of kvs ''payload'' = Some p" "p \<noteq> JNull"
  show "store (snd (fetch_current E S ow w la lo u nm ctry)) = store w \<and>
     new_events w (snd (fetch_current E S ow w la lo u nm ctry)) = [GetJson (current_key E S la lo u)]"
    by (simp add: fetch_current_cached [OF a p] new_events_def)
qed

lemma fetch_current_cached_response:
  "client_get (store w) (clock w) (current_key E S la lo u) = Inr (Some raw) \<and> raw \<noteq> [] \<and>
   loads E raw = Some (JObj kvs) \<and>
   py_int E (case map_of kvs ''stored_at'' of None \<Rightarrow> JInt 0 | Some v \<Rightarrow> v) = Inr s \<and>
   map_of kvs ''payload'' = Some (JObj pk) \<and>
   (u = ''metric'' \<or> u = ''imperial'') \<and>
   (truthy nm \<or> is_opt_str (entry_of pk ''name'')) \<and>
   (truthy ctry \<or> (dict_of pk ''sys'' = JObj sk \<and> is_opt_str (entry_of sk ''country''))) \<and>
   (entry_of pk ''dt'' = JNull \<or> int_field E (entry_of pk ''dt'') \<noteq> None) \<longrightarrow>
     (fetch_current E S ow w la lo u nm ctry) =
       (Inr \<lparr>CurrentWeatherResponse.location =
                 \<lparr>lat = la, lon = lo, Location.name = chosen nm (entry_of pk ''name''),
                  country = chosen ctry (entry_of sk ''country'')\<rparr>,
               CurrentWeatherResponse.units = u, observed_at = None, current = JObj pk,
               CurrentWeatherResponse.provider =
                 \<lparr>ProviderInfo.name = ''openweather'',
                  data_timestamp =
                    (if entry_of pk ''dt'' = JNull then None
                     else int_field E (entry_of pk ''dt''))\<rparr>,
               CurrentWeatherResponse.cache =
                 \<lparr>CacheInfo.hit = True, age_seconds = Some (max 0 (unix_time w - s)), stale = False\<rparr>\<rparr>,
        log (GetJson (current_key E S la lo u)) w)"
proof (intro impI, elim conjE)
  assume a: "client_get (store w) (clock w) (current_key E S la lo u) = Inr (Some raw)" "raw \<noteq> []"
    "loads E raw = Some (JObj kvs)"
    "py_int E (case map_of kvs ''stored_at'' of None \<Rightarrow> JInt 0 | Some v \<Rightarrow> v) = Inr s"
    and p: "map_of kvs ''payload'' = Some (JObj pk)"
    and u: "u = ''metric'' \<or> u = ''imperial''"
    and n: "truthy nm \<or> is_opt_str (entry_of pk ''name'')"
    and c: "truthy ctry \<or> (dict_of pk ''sys'' = JObj sk \<and> is_opt_str (entry_of sk ''country''))"
    and t: "entry_of pk ''dt'' = JNull \<or> int_field E (entry_of pk ''dt'') \<noteq> None"
  have nn: "JObj pk \<noteq> JNull" by simp
  show "(fetch_current E S ow w la lo u nm ctry) =
       (Inr \<lparr>CurrentWeatherResponse.location =
                 \<lparr>lat = la, lon = lo, Location.name = chosen nm (entry_of pk ''name''),
                  country = chosen ctry (entry_of sk ''country'')\<rparr>,
               CurrentWeatherResponse.units = u, observed_at = None, current = JObj pk,
               CurrentWeatherResponse.provider =
                 \<lparr>ProviderInfo.name = ''openweather'',
                  data_timestamp =
                    (if entry_of pk ''dt'' = JNull then None
                     else int_field E (entry_of pk ''dt''))\<rparr>,
               CurrentWeatherResponse.cache =
                 \<lparr>CacheInfo.hit = True, age_seconds = Some (max 0 (unix_time w - s)), stale = False\<rparr>\<rparr>,
        log (GetJson (current_key E S la lo u)) w)"
    by (simp only: fetch_current_cached [OF a p nn] current_response_shape [OF u n c t] sum.case)
qed

lemma fetch_forecast_cached:
  assumes a: "client_get (store w) (clock w) (forecast_key E S la lo u) = Inr (Some raw)" "raw \<noteq> []"
    "loads E raw = Some (JObj kvs)"
    "py_int E (case map_of kvs ''stored_at'' of None \<Rightarrow> JInt 0 | Some v \<Rightarrow> v) = Inr s"
    and p: "map_of kvs ''payload'' = Some p" "p \<noteq> JNull"
  shows "fetch_forecast E S ow w la lo u nm ctry =
       ((case forecast_response la lo u nm ctry p
               \<lparr>CacheInfo.hit = True, age_seconds = Some (max 0 (unix_time w - s)), stale = False\<rparr> of
          Inl e \<Rightarrow> Inl (Err e)
        | Inr r \<Rightarrow> Inr r), log (GetJson (forecast_key E S la lo u)) w)"
proof -
  have g: "get_json E (store w) (clock w) (unix_time w) (forecast_key E S la lo u) =
     Inr \<lparr>value = p, hit = True, age_seconds = Some (max 0 (unix_time w - s)), stale = False\<rparr>"
    using get_json_record [OF a, of "unix_time w"] p by simp
  have us: "usable \<lparr>value = p, hit = True, age_seconds = Some (max 0 (unix_time w - s)), stale = False\<rparr>"
    using p by (simp add: usable_def)
  from fetch_forecast_hit [OF g us] show ?thesis by simp
qed

lemma fetch_forecast_cached_quiet:
  "client_get (store w) (clock w) (forecast_key E S la lo u) = Inr (Some raw) \<and> raw \<noteq> [] \<and>
   loads E raw = Some (JObj kvs) \<and>
   py_int E (case map_of kvs ''stored_at'' of None \<Rightarrow> JInt 0 | Some v \<Rightarrow> v) = Inr s \<and>
   map_of kvs ''payload'' = Some p \<and> p \<noteq> JNull \<longrightarrow>
     store (snd (fetch_forecast E S ow w la lo u nm ctry)) = store w \<and>
     new_events w (snd (fetch_forecast E S ow w la lo u nm ctry)) = [GetJson (forecast_key E S la lo u)]"
proof (intro impI, elim conjE)
  assume a: "client_get (store w) (clock w) (forecast_key E S la lo u) = Inr (Some raw)" "raw \<noteq> []"
    "loads E raw = Some (JObj kvs)"
    "py_int E (case map_of kvs ''stored_at'' of None \<Rightarrow> JInt 0 | Some v \<Rightarrow> v) = Inr s"
    and p: "map_of kvs ''payload'' = Some p" "p \<noteq> JNull"
  show "store (snd (fetch_forecast E S ow w la lo u nm ctry)) = store w \<and>
     new_events w (snd (fetch_forecast E S ow w la lo u nm ctry)) = [GetJson (forecast_key E S la lo u)]"
    by (simp add: fetch_forecast_cached [OF a p] new_events_def)
qed

lemma fetch_forecast_cached_response:
  "client_get (store w) (clock w) (forecast_key E S la lo u) = Inr (Some raw) \<and> raw \<noteq> [] \<and>
   loads E raw = Some (JObj kvs) \<and>
   py_int E (case map_of kvs ''stored_at'' of None \<Rightarrow> JInt 0 | Some v \<Rightarrow> v) = Inr s \<and>
   map_of kvs ''payload'' = Some (JObj pk) \<and>
   (u = ''metric'' \<or> u = ''imperial'') \<and>
   (truthy nm \<or> (dict_of pk ''city'' = JObj ck \<and> is_opt_str (entry_of ck ''name''))) \<and>
   (truthy ctry \<or> (dict_of pk ''city'' = JObj ck \<and> is_opt_str (entry_of ck ''country''))) \<longrightarrow>
     (fetch_forecast E S ow w la lo u nm ctry) =
       (Inr \<lparr>ForecastResponse.location =
                 \<lparr>lat = la, lon = lo, Location.name = chosen nm (entry_of ck ''name''),
                  country = chosen ctry (entry_of ck ''country'')\<rparr>,
               ForecastResponse.units = u, forecast = JObj pk,
               ForecastResponse.provider =
                 \<lparr>ProviderInfo.name = ''openweather'', data_timestamp = None\<rparr>,
               ForecastResponse.cache =
                 \<lparr>CacheInfo.hit = True, age_seconds = Some (max 0 (unix_time w - s)), stale = False\<rparr>\<rparr>,
        log (GetJson (forecast_key E S la lo u)) w)"
proof (intro impI, elim conjE)
  assume a: "client_get (store w) (clock w) (forecast_key E S la lo u) = Inr (Some raw)" "raw \<noteq> []"
    "loads E raw = Some (JObj kvs)"
    "py_int E (case map_of kvs ''stored_at'' of None \<Rightarrow> JInt 0 | Some v \<Rightarrow> v) = Inr s"
    and p: "map_of kvs ''payload'' = Some (JObj pk)"
    and u: "u = ''metric'' \<or> u = ''imperial''"
    and n: "truthy nm \<or> (dict_of pk ''city'' = JObj ck \<and> is_opt_str (entry_of ck ''name''))"
    and c: "truthy ctry \<or> (dict_of pk ''city'' = JObj ck \<and> is_opt_str (entry_of ck ''country''))"
  have nn: "JObj pk \<noteq> JNull" by simp
  show "(fetch_forecast E S ow w la lo u nm ctry) =
       (Inr \<lparr>ForecastResponse.location =
                 \<lparr>lat = la, lon = lo, Location.name = chosen nm (entry_of ck ''name''),
                  country = chosen ctry (entry_of ck ''country'')\<rparr>,
               ForecastResponse.units = u, forecast = JObj pk,
               ForecastResponse.provider =
                 \<lparr>ProviderInfo.name = ''openweather'', data_timestamp = None\<rparr>,
               ForecastResponse.cache =
                 \<lparr>CacheInfo.hit = True, age_seconds = Some (max 0 (unix_time w - s)), stale = False\<rparr>\<rparr>,
        log (GetJson (forecast_key E S la lo u)) w)"
    by (simp only: fetch_forecast_cached [OF a p nn] forecast_response_shape [OF u n c] sum.case)
qed

text \<open>
  C2, amended. When the cache key holds a record that decodes, with a payload that is
  not \<^verbatim>\<open>None\<close>, \<^verbatim>\<open>_fetch_current\<close> and \<^verbatim>\<open>_fetch_forecast\<close> make one call, the read of the
  cache: the upstream client is not called, no lock is taken and the store is left as
  it was (first and third conjunct). When moreover \<^verbatim>\<open>units\<close> is \<^verbatim>\<open>metric\<close> or \<^verbatim>\<open>imperial\<close>
  and the payload is a \<^verbatim>\<open>dict\<close> whose consulted entries have the shapes the response
  model accepts, the handler returns the response written out below: the cached
  payload unchanged, \<open>hit = True\<close>, the record's age, and the location filled from the
  arguments or the payload (second and fourth conjunct). The shapes are, for
  \<^verbatim>\<open>_fetch_current\<close>: \<^verbatim>\<open>name\<close> is \<^verbatim>\<open>None\<close> or a \<^verbatim>\<open>str\<close> unless a name is given; \<^verbatim>\<open>sys\<close> is a
  \<^verbatim>\<open>dict\<close> whose \<^verbatim>\<open>country\<close> is \<^verbatim>\<open>None\<close> or a \<^verbatim>\<open>str\<close> unless a country is given; \<^verbatim>\<open>dt\<close> is
  \<^verbatim>\<open>None\<close> or passes the validation of an \<^verbatim>\<open>int\<close> field. For \<^verbatim>\<open>_fetch_forecast\<close>:
  \<^verbatim>\<open>city\<close> is a \<^verbatim>\<open>dict\<close> whose \<^verbatim>\<open>name\<close> and \<^verbatim>\<open>country\<close>, each unless given, are \<^verbatim>\<open>None\<close> or a
  \<^verbatim>\<open>str\<close>.
\<close>

theorem cached_payload_returned:
  "(client_get (store w) (clock w) (current_key E S la lo u) = Inr (Some raw) \<and> raw \<noteq> [] \<and>
   loads E raw = Some (JObj kvs) \<and>
   py_int E (case map_of kvs ''stored_at'' of None \<Rightarrow> JInt 0 | Some v \<Rightarrow> v) = Inr s \<and>
   map_of kvs ''payload'' = Some p \<and> p \<noteq> JNull \<longrightarrow>
     store (snd (fetch_current E S ow w la lo u nm ctry)) = store w \<and>
     new_events w (snd (fetch_current E S ow w la lo u nm ctry)) = [GetJson (current_key E S la lo u)]) \<and>
   (client_get (store w) (clock w) (current_key E S la lo u) = Inr (Some raw) \<and> raw \<noteq> [] \<and>
   loads E raw = Some (JObj kvs) \<and>
   py_int E (case map_of kvs ''stored_at'' of None \<Rightarrow> JInt 0 | Some v \<Rightarrow> v) = Inr s \<and>
   map_of kvs ''payload'' = Some (JObj pk) \<and>
   (u = ''metric'' \<or> u = ''imperial'') \<and>
   (truthy nm \<or> is_opt_str (entry_of pk ''name'')) \<and>
   (truthy ctry \<or> (dict_of pk ''sys'' = JObj sk \<and> is_opt_str (entry_of sk ''country''))) \<and>
   (entry_of pk ''dt'' = JNull \<or> int_field E (entry_of pk ''dt'') \<noteq> None) \<longrightarrow>
     (fetch_current E S ow w la lo u nm ctry) =
       (Inr \<lparr>CurrentWeatherResponse.location =
                 \<lparr>lat = la, lon = lo, Location.name = chosen nm (entry_of pk ''name''),
                  country = chosen ctry (entry_of sk ''country'')\<rparr>,
               CurrentWeatherResponse.units = u, observed_at = None, current = JObj pk,
               CurrentWeatherResponse.provider =
                 \<lparr>ProviderInfo.name = ''openweather'',
                  data_timestamp =
                    (if entry_of pk ''dt'' = JNull then None
                     else int_field E (entry_of pk ''dt''))\<rparr>,
               CurrentWeatherResponse.cache =
                 \<lparr>CacheInfo.hit = True, age_seconds = Some (max 0 (unix_time w - s)), stale = False\<rparr>\<rparr>,
        log (GetJson (current_key E S la lo u)) w)) \<and>
   (client_get (store w) (clock w) (forecast_key E S la lo u) = Inr (Some raw) \<and> raw \<noteq> [] \<and>
   loads E raw = Some (JObj kvs) \<and>
   py_int E (case map_of kvs ''stored_at'' of None \<Rightarrow> JInt 0 | Some v \<Rightarrow> v) = Inr s \<and>
   map_of kvs ''payload'' = Some p \<and> p \<noteq> JNull \<longrightarrow>
     store (snd (fetch_forecast E S ow w la lo u nm ctry)) = store w \<and>
     new_events w (snd (fetch_forecast E S ow w la lo u nm ctry)) = [GetJson (forecast_key E S la lo u)]) \<and>
   (client_get (store w) (clock w) (forecast_key E S la lo u) = Inr (Some raw) \<and> raw \<noteq> [] \<and>
   loads E raw = Some (JObj kvs) \<and>
   py_int E (case map_of kvs ''stored_at'' of None \<Rightarrow> JInt 0 | Some v \<Rightarrow> v) = Inr s \<and>
   map_of kvs ''payload'' = Some (JObj pk) \<and>
   (u = ''metric'' \<or> u = ''imperial'') \<and>
   (truthy nm \<or> (dict_of pk ''city'' = JObj ck \<and> is_opt_str (entry_of ck ''name''))) \<and>
   (truthy ctry \<or> (dict_of pk ''city'' = JObj ck \<and> is_opt_str (entry_of ck ''country''))) \<longrightarrow>
     (fetch_forecast E S ow w la lo u nm ctry) =
       (Inr \<lparr>ForecastResponse.location =
                 \<lparr>lat = la, lon = lo, Location.name = chosen nm (entry_of ck ''name''),
                  country = chosen ctry (entry_of ck ''country'')\<rparr>,
               ForecastResponse.units = u, forecast = JObj pk,
               ForecastResponse.provider =
                 \<lparr>ProviderInfo.name = ''openweather'', data_timestamp = None\<rparr>,
               ForecastResponse.cache =
                 \<lparr>CacheInfo.hit = True, age_seconds = Some (max 0 (unix_time w - s)), stale = False\<rparr>\<rparr>,
        log (GetJson (forecast_key E S la lo u)) w))"
  by (intro conjI) (rule fetch_current_cached_quiet fetch_current_cached_response fetch_forecast_cached_quiet fetch_forecast_cached_response)+

text \<open>
  The claim as stated fails on a cached payload whose \<^verbatim>\<open>"sys"\<close> entry is \<^verbatim>\<open>null\<close>:
  \<^verbatim>\<open>payload.get("sys", {})\<close> is \<^verbatim>\<open>None\<close>, and \<^verbatim>\<open>None.get("country")\<close> raises
  \<^verbatim>\<open>AttributeError\<close> outside the \<^verbatim>\<open>try\<close>.
\<close>

theorem cached_payload_returned_counterexample:
  \<open>get_json sample_env
     (store (world_with ''current:metric:51.51:-0.13'' ''{"stored_at": 70, "payload": {"sys": null}}''))
     100000 100 ''current:metric:51.51:-0.13'' =
     Inr \<lparr>value = JObj [(''sys'', JNull)], hit = True, age_seconds = Some 30, stale = False\<rparr> \<and>
   fst (fetch_current sample_env default_settings sample_ow
          (world_with ''current:metric:51.51:-0.13'' ''{"stored_at": 70, "payload": {"sys": null}}'')
          ''51.51'' ''-0.13'' ''metric'' None None) = Inl (Err AttributeError)\<close>
proof -
  let ?raw = \<open>''{"stored_at": 70, "payload": {"sys": null}}''\<close>
  let ?w = "world_with ''current:metric:51.51:-0.13'' ?raw"
  have c: "clock ?w = 100000" by (simp add: world_with_def world_holding_def)
  have g: "client_get (store ?w) 100000 ''current:metric:51.51:-0.13'' = Inr (Some ?raw)"
    using world_with_get [of "''current:metric:51.51:-0.13''" ?raw] by (simp add: c)
  have 1: "get_json sample_env (store ?w) 100000 100 ''current:metric:51.51:-0.13'' =
     Inr \<lparr>value = JObj [(''sys'', JNull)], hit = True, age_seconds = Some 30, stale = False\<rparr>"
    using get_json_record [OF g _ sample_loads_sys_null, of 70 100] by simp
  have g': "client_get (store ?w) (clock ?w)
       (current_key sample_env default_settings ''51.51'' ''-0.13'' ''metric'') = Inr (Some ?raw)"
    unfolding sample_current_key by (rule world_with_get)
  have "fetch_current sample_env default_settings sample_ow ?w
          ''51.51'' ''-0.13'' ''metric'' None None =
       ((case current_response sample_env ''51.51'' ''-0.13'' ''metric'' None None (JObj [(''sys'', JNull)])
               \<lparr>CacheInfo.hit = True, age_seconds = Some (max 0 (unix_time ?w - 70)), stale = False\<rparr> of
          Inl e \<Rightarrow> Inl (Err e)
        | Inr r \<Rightarrow> Inr r),
        log (GetJson (current_key sample_env default_settings ''51.51'' ''-0.13'' ''metric'')) ?w)"
    by (rule fetch_current_cached [OF g' _ sample_loads_sys_null]) simp_all
  then have 2: "fst (fetch_current sample_env default_settings sample_ow ?w
          ''51.51'' ''-0.13'' ''metric'' None None) = Inl (Err AttributeError)"
    by (simp add: sys_null_response)
  from 1 2 show ?thesis by simp
qed

theorem cached_payload_returned_witness:
  \<open>fetch_current sample_env default_settings sample_ow
     (world_with ''current:metric:51.51:-0.13''
        ''{"stored_at": 70, "payload": {"name": "London", "sys": {"country": "GB"}, "dt": 1700000000}}'')
     ''51.51'' ''-0.13'' ''metric'' None None =
     (Inr \<lparr>CurrentWeatherResponse.location =
             \<lparr>lat = ''51.51'', lon = ''-0.13'', Location.name = Some ''London'', country = Some ''GB''\<rparr>,
           CurrentWeatherResponse.units = ''metric'', observed_at = None,
           current = JObj [(''name'', JStr ''London''), (''sys'', JObj [(''country'', JStr ''GB'')]),
                           (''dt'', JInt 1700000000)],
           CurrentWeatherResponse.provider =
             \<lparr>ProviderInfo.name = ''openweather'', data_timestamp = Some 1700000000\<rparr>,
           CurrentWeatherResponse.cache =
             \<lparr>CacheInfo.hit = True, age_seconds = Some 30, stale = False\<rparr>\<rparr>,
      log (GetJson ''current:metric:51.51:-0.13'')
        (world_with ''current:metric:51.51:-0.13''
           ''{"stored_at": 70, "payload": {"name": "London", "sys": {"country": "GB"}, "dt": 1700000000}}'')) \<and>
   fetch_forecast sample_env default_settings sample_ow
     (world_with ''forecast:metric:51.51:-0.13''
        ''{"stored_at": 70, "payload": {"city": {"name": "London", "country": "GB"}}}'')
     ''51.51'' ''-0.13'' ''metric'' None None =
     (Inr \<lparr>ForecastResponse.location =
             \<lparr>lat = ''51.51'', lon = ''-0.13'', Location.name = Some ''London'', country = Some ''GB''\<rparr>,
           ForecastResponse.units = ''metric'',
           forecast = JObj [(''city'', JObj [(''name'', JStr ''London''), (''country'', JStr ''GB'')])],
           ForecastResponse.provider =
             \<lparr>ProviderInfo.name = ''openweather'', data_timestamp = None\<rparr>,
           ForecastResponse.cache =
             \<lparr>CacheInfo.hit = True, age_seconds = Some 30, stale = False\<rparr>\<rparr>,
      log (GetJson ''forecast:metric:51.51:-0.13'')
        (world_with ''forecast:metric:51.51:-0.13''
           ''{"stored_at": 70, "payload": {"city": {"name": "London", "country": "GB"}}}''))\<close>
proof -
  let ?rawc = \<open>''{"stored_at": 70, "payload": {"name": "London", "sys": {"country": "GB"}, "dt": 1700000000}}''\<close>
  let ?rawf = \<open>''{"stored_at": 70, "payload": {"city": {"name": "London", "country": "GB"}}}''\<close>
  let ?wc = "world_with ''current:metric:51.51:-0.13'' ?rawc"
  let ?wf = "world_with ''forecast:metric:51.51:-0.13'' ?rawf"
  let ?pc = "[(''name'', JStr ''London''), (''sys'', JObj [(''country'', JStr ''GB'')]),
              (''dt'', JInt 1700000000)] :: (string \<times> string json) list"
  let ?pf = "[(''city'', JObj [(''name'', JStr ''London''), (''country'', JStr ''GB'')])]
              :: (string \<times> string json) list"
  let ?sk = "[(''country'', JStr ''GB'')] :: (string \<times> string json) list"
  let ?ck = "[(''name'', JStr ''London''), (''country'', JStr ''GB'')] :: (string \<times> string json) list"
  have gc: "client_get (store ?wc) (clock ?wc)
       (current_key sample_env default_settings ''51.51'' ''-0.13'' ''metric'') = Inr (Some ?rawc)"
    unfolding sample_current_key by (rule world_with_get)
  have gf: "client_get (store ?wf) (clock ?wf)
       (forecast_key sample_env default_settings ''51.51'' ''-0.13'' ''metric'') = Inr (Some ?rawf)"
    unfolding sample_forecast_key by (rule world_with_get)
  have shape_c:
    "is_opt_str (entry_of ?pc ''name'')"
    "dict_of ?pc ''sys'' = JObj ?sk"
    "is_opt_str (entry_of ?sk ''country'')"
    "int_field sample_env (entry_of ?pc ''dt'') \<noteq> None"
    by (simp_all add: is_opt_str_def entry_of_def dict_of_def sample_env_def)
  have shape_f:
    "dict_of ?pf ''city'' = JObj ?ck"
    "is_opt_str (entry_of ?ck ''name'')"
    "is_opt_str (entry_of ?ck ''country'')"
    by (simp_all add: is_opt_str_def entry_of_def dict_of_def)
  have 1: "fetch_current sample_env default_settings sample_ow ?wc
             ''51.51'' ''-0.13'' ''metric'' None None =
     (Inr \<lparr>CurrentWeatherResponse.location =
             \<lparr>lat = ''51.51'', lon = ''-0.13'', Location.name = chosen None (entry_of ?pc ''name''),
              country = chosen None (entry_of ?sk ''country'')\<rparr>,
           CurrentWeatherResponse.units = ''metric'', observed_at = None, current = JObj ?pc,
           CurrentWeatherResponse.provider =
             \<lparr>ProviderInfo.name = ''openweather'',
              data_timestamp =
                (if entry_of ?pc ''dt'' = JNull then None
                 else int_field sample_env (entry_of ?pc ''dt''))\<rparr>,
           CurrentWeatherResponse.cache =
             \<lparr>CacheInfo.hit = True, age_seconds = Some (max 0 (unix_time ?wc - 70)), stale = False\<rparr>\<rparr>,
      log (GetJson (current_key sample_env default_settings ''51.51'' ''-0.13'' ''metric'')) ?wc)"
    by (rule cached_payload_returned [where E = sample_env and S = default_settings
          and la = "''51.51''" and lo = "''-0.13''" and u = "''metric''"
          and ow = sample_ow and nm = None and ctry = None and s = 70
          and w = ?wc and raw = ?rawc and pk = ?pc
          and kvs = "[(''stored_at'', JInt 70), (''payload'', JObj ?pc)]"
          and sk = "?sk", THEN conjunct2, THEN conjunct1, THEN mp])
       (simp add: gc sample_loads_current shape_c)
  have 2: "fetch_forecast sample_env default_settings sample_ow ?wf
             ''51.51'' ''-0.13'' ''metric'' None None =
     (Inr \<lparr>ForecastResponse.location =
             \<lparr>lat = ''51.51'', lon = ''-0.13'',
              Location.name = chosen None (entry_of ?ck ''name''),
              country = chosen None (entry_of ?ck ''country'')\<rparr>,
           ForecastResponse.units = ''metric'', forecast = JObj ?pf,
           ForecastResponse.provider =
             \<lparr>ProviderInfo.name = ''openweather'', data_timestamp = None\<rparr>,
           ForecastResponse.cache =
             \<lparr>CacheInfo.hit = True, age_seconds = Some (max 0 (unix_time ?wf - 70)), stale = False\<rparr>\<rparr>,
      log (GetJson (forecast_key sample_env default_settings ''51.51'' ''-0.13'' ''metric'')) ?wf)"
    by (rule cached_payload_returned [where E = sample_env and S = default_settings
          and la = "''51.51''" and lo = "''-0.13''" and u = "''metric''"
          and ow = sample_ow and nm = None and ctry = None and s = 70
          and w = ?wf and raw = ?rawf and pk = ?pf
          and kvs = "[(''stored_at'', JInt 70), (''payload'', JObj ?pf)]"
          and ck = "?ck",
          THEN conjunct2, THEN conjunct2, THEN conjunct2, THEN mp])
       (simp add: gf sample_loads_forecast shape_f)
  have ev: "chosen None (JStr ''London'') = Some ''London''" "chosen None (JStr ''GB'') = Some ''GB''"
    by (simp_all add: chosen_def truthy_def opt_str_of_def)
  have dt: "int_field sample_env (JInt 1700000000) = Some 1700000000"
    by (simp add: sample_env_def)
  from 1 2 show ?thesis
    by (simp add: sample_current_key sample_forecast_key world_with_time entry_of_def ev dt)
qed

section \<open>The busy result\<close>

text \<open>
  In app/main.py a request that misses the cache and does not get the lock ends with
  HTTP 503, having called neither the upstream client nor \<open>set_json\<close>.
\<close>

lemma fetch_current_busy_503:
  "cached_miss E w (current_key E S la lo u) \<and>
      acquire_lock (store w) (clock w) (lock_key_of (current_key E S la lo u)) 10000 = Inr (False, db') \<longrightarrow>
      fst (fetch_current E S ow w la lo u nm ctry) = Inl (HTTPException 503 (Text ''Weather refresh in progress, try again'')) \<and>
      store (snd (fetch_current E S ow w la lo u nm ctry)) = store w \<and>
      new_events w (snd (fetch_current E S ow w la lo u nm ctry)) =
        [GetJson (current_key E S la lo u), AcquireLock (lock_key_of (current_key E S la lo u)) False]"
proof (intro impI, elim conjE)
  assume m: "cached_miss E w (current_key E S la lo u)"
    and a: "acquire_lock (store w) (clock w) (lock_key_of (current_key E S la lo u)) 10000 = Inr (False, db')"
  from a have f: "\<not> lock_free w (lock_key_of (current_key E S la lo u))"
    by (simp add: acquire_lock_False_iff)
  show "fst (fetch_current E S ow w la lo u nm ctry) = Inl (HTTPException 503 (Text ''Weather refresh in progress, try again'')) \<and>
      store (snd (fetch_current E S ow w la lo u nm ctry)) = store w \<and>
      new_events w (snd (fetch_current E S ow w la lo u nm ctry)) =
        [GetJson (current_key E S la lo u), AcquireLock (lock_key_of (current_key E S la lo u)) False]"
    by (simp add: fetch_current_busy [OF m f] new_events_def)
qed

lemma fetch_forecast_busy_503:
  "cached_miss E w (forecast_key E S la lo u) \<and>
      acquire_lock (store w) (clock w) (lock_key_of (forecast_key E S la lo u)) 10000 = Inr (False, db') \<longrightarrow>
      fst (fetch_forecast E S ow w la lo u nm ctry) = Inl (HTTPException 503 (Text ''Forecast refresh in progress, try again'')) \<and>
      store (snd (fetch_forecast E S ow w la lo u nm ctry)) = store w \<and>
      new_events w (snd (fetch_forecast E S ow w la lo u nm ctry)) =
        [GetJson (forecast_key E S la lo u), AcquireLock (lock_key_of (forecast_key E S la lo u)) False]"
proof (intro impI, elim conjE)
  assume m: "cached_miss E w (forecast_key E S la lo u)"
    and a: "acquire_lock (store w) (clock w) (lock_key_of (forecast_key E S la lo u)) 10000 = Inr (False, db')"
  from a have f: "\<not> lock_free w (lock_key_of (forecast_key E S la lo u))"
    by (simp add: acquire_lock_False_iff)
  show "fst (fetch_forecast E S ow w la lo u nm ctry) = Inl (HTTPException 503 (Text ''Forecast refresh in progress, try again'')) \<and>
      store (snd (fetch_forecast E S ow w la lo u nm ctry)) = store w \<and>
      new_events w (snd (fetch_forecast E S ow w la lo u nm ctry)) =
        [GetJson (forecast_key E S la lo u), AcquireLock (lock_key_of (forecast_key E S la lo u)) False]"
    by (simp add: fetch_forecast_busy [OF m f] new_events_def)
qed

text \<open>
  C3. In main.py the same request does not end with HTTP 503: the \<^verbatim>\<open>HTTPException\<close>
  raised in the \<^verbatim>\<open>try\<close> reaches \<^verbatim>\<open>except httpx.HTTPStatusError\<close>, and \<^verbatim>\<open>httpx\<close> is not
  defined in that module. Evaluated for \<^verbatim>\<open>forecast\<close> at 51.51, -0.13, metric, with the
  lock key held: the handler raises \<^verbatim>\<open>NameError\<close>.
\<close>

theorem main_forecast_busy_is_NameError:
  "fst (main_forecast sample_env default_settings sample_ow
          (world_with ''lock:forecast:metric:51.51:-0.13'' ''1'')
          ''51.51'' ''-0.13'' ''metric'') = Inl (Err NameError) \<and>
   new_events (world_with ''lock:forecast:metric:51.51:-0.13'' ''1'')
     (snd (main_forecast sample_env default_settings sample_ow
             (world_with ''lock:forecast:metric:51.51:-0.13'' ''1'')
             ''51.51'' ''-0.13'' ''metric'')) =
     [GetJson ''forecast:metric:51.51:-0.13'',
      AcquireLock ''lock:forecast:metric:51.51:-0.13'' False]"
proof -
  let ?w = "world_with ''lock:forecast:metric:51.51:-0.13'' ''1''"
  have lk: "lock_key_of (forecast_key sample_env default_settings ''51.51'' ''-0.13'' ''metric'') =
      ''lock:forecast:metric:51.51:-0.13''"
    by (simp add: sample_forecast_key lock_key_of_def)
  have m: "cached_miss sample_env ?w
      (forecast_key sample_env default_settings ''51.51'' ''-0.13'' ''metric'')"
    unfolding sample_forecast_key by (rule world_with_other_miss) simp
  have f: "\<not> lock_free ?w
      (lock_key_of (forecast_key sample_env default_settings ''51.51'' ''-0.13'' ''metric''))"
    unfolding lk by (rule world_with_held)
  show ?thesis
    by (simp add: main_forecast_busy [OF m f] new_events_def sample_forecast_key lock_key_of_def)
qed

section \<open>Upstream failure\<close>

text \<open>
  In app/main.py a failing upstream call ends with HTTP 502 (the response text for an
  \<^verbatim>\<open>HTTPStatusError\<close>, \<^verbatim>\<open>str(exc)\<close> otherwise), the lock released and the cache key as it
  was.
\<close>

lemma fetch_current_upstream_502:
  "cached_miss E w (current_key E S la lo u) \<and>
      acquire_lock (store w) (clock w) (lock_key_of (current_key E S la lo u)) 10000 = Inr (True, db') \<and>
      get_current ow la lo u = (Inl e, ms) \<longrightarrow>
      fst (fetch_current E S ow w la lo u nm ctry) =
        Inl (HTTPException 502
               (case e of HTTPStatusError st body \<Rightarrow> Text body | _ \<Rightarrow> StrOf e)) \<and>
      store (snd (fetch_current E S ow w la lo u nm ctry)) (current_key E S la lo u) = store w (current_key E S la lo u) \<and>
      store (snd (fetch_current E S ow w la lo u nm ctry)) (lock_key_of (current_key E S la lo u)) = None \<and>
      new_events w (snd (fetch_current E S ow w la lo u nm ctry)) =
        [GetJson (current_key E S la lo u), AcquireLock (lock_key_of (current_key E S la lo u)) True, GetCurrent, ReleaseLock (lock_key_of (current_key E S la lo u))]"
proof (intro impI, elim conjE)
  assume m: "cached_miss E w (current_key E S la lo u)"
    and a: "acquire_lock (store w) (clock w) (lock_key_of (current_key E S la lo u)) 10000 = Inr (True, db')"
    and g: "get_current ow la lo u = (Inl e, ms)"
  from a have f: "lock_free w (lock_key_of (current_key E S la lo u))"
    by (rule acquire_lock_True_imp)
  note r = fetch_current_upstream_error [OF m f g]
  show "fst (fetch_current E S ow w la lo u nm ctry) =
        Inl (HTTPException 502
               (case e of HTTPStatusError st body \<Rightarrow> Text body | _ \<Rightarrow> StrOf e)) \<and>
      store (snd (fetch_current E S ow w la lo u nm ctry)) (current_key E S la lo u) = store w (current_key E S la lo u) \<and>
      store (snd (fetch_current E S ow w la lo u nm ctry)) (lock_key_of (current_key E S la lo u)) = None \<and>
      new_events w (snd (fetch_current E S ow w la lo u nm ctry)) =
        [GetJson (current_key E S la lo u), AcquireLock (lock_key_of (current_key E S la lo u)) True, GetCurrent, ReleaseLock (lock_key_of (current_key E S la lo u))]"
    using r by (simp add: app_except_Err new_events_def)
qed

lemma fetch_forecast_upstream_502:
  "cached_miss E w (forecast_key E S la lo u) \<and>
      acquire_lock (store w) (clock w) (lock_key_of (forecast_key E S la lo u)) 10000 = Inr (True, db') \<and>
      get_forecast ow la lo u = (Inl e, ms) \<longrightarrow>
      fst (fetch_forecast E S ow w la lo u nm ctry) =
        Inl (HTTPException 502
               (case e of HTTPStatusError st body \<Rightarrow> Text body | _ \<Rightarrow> StrOf e)) \<and>
      store (snd (fetch_forecast E S ow w la lo u nm ctry)) (forecast_key E S la lo u) = store w (forecast_key E S la lo u) \<and>
      store (snd (fetch_forecast E S ow w la lo u nm ctry)) (lock_key_of (forecast_key E S la lo u)) = None \<and>
      new_events w (snd (fetch_forecast E S ow w la lo u nm ctry)) =
        [GetJson (forecast_key E S la lo u), AcquireLock (lock_key_of (forecast_key E S la lo u)) True, GetForecast, ReleaseLock (lock_key_of (forecast_key E S la lo u))]"
proof (intro impI, elim conjE)
  assume m: "cached_miss E w (forecast_key E S la lo u)"
    and a: "acquire_lock (store w) (clock w) (lock_key_of (forecast_key E S la lo u)) 10000 = Inr (True, db')"
    and g: "get_forecast ow la lo u = (Inl e, ms)"
  from a have f: "lock_free w (lock_key_of (forecast_key E S la lo u))"
    by (rule acquire_lock_True_imp)
  note r = fetch_forecast_upstream_error [OF m f g]
  show "fst (fetch_forecast E S ow w la lo u nm ctry) =
        Inl (HTTPException 502
               (case e of HTTPStatusError st body \<Rightarrow> Text body | _ \<Rightarrow> StrOf e)) \<and>
      store (snd (fetch_forecast E S ow w la lo u nm ctry)) (forecast_key E S la lo u) = store w (forecast_key E S la lo u) \<and>
      store (snd (fetch_forecast E S ow w la lo u nm ctry)) (lock_key_of (forecast_key E S la lo u)) = None \<and>
      new_events w (snd (fetch_forecast E S ow w la lo u nm ctry)) =
        [GetJson (forecast_key E S la lo u), AcquireLock (lock_key_of (forecast_key E S la lo u)) True, GetForecast, ReleaseLock (lock_key_of (forecast_key E S la lo u))]"
    using r by (simp add: app_except_Err new_events_def)
qed

text \<open>
  C4. In main.py a failing upstream call releases the lock and leaves the cache key as
  it was, but the result is not a gateway error: the exception reaches
  \<^verbatim>\<open>except httpx.HTTPStatusError\<close>, and \<^verbatim>\<open>httpx\<close> is not defined in that module.
  Evaluated for \<^verbatim>\<open>current_weather\<close> at 51.51, -0.13, metric, on an empty store, with an
  upstream that answers HTTP 500: the handler raises \<^verbatim>\<open>NameError\<close>.
\<close>

theorem main_current_weather_upstream_500_is_NameError:
  "fst (main_current_weather sample_env default_settings failing_ow empty_world
          ''51.51'' ''-0.13'' ''metric'') = Inl (Err NameError) \<and>
   new_events empty_world
     (snd (main_current_weather sample_env default_settings failing_ow empty_world
             ''51.51'' ''-0.13'' ''metric'')) =
     [GetJson ''current:metric:51.51:-0.13'',
      AcquireLock ''lock:current:metric:51.51:-0.13'' True, GetCurrent,
      ReleaseLock ''lock:current:metric:51.51:-0.13''] \<and>
   store (snd (main_current_weather sample_env default_settings failing_ow empty_world
                 ''51.51'' ''-0.13'' ''metric'')) ''current:metric:51.51:-0.13'' = None"
proof -
  have g: "get_current failing_ow ''51.51'' ''-0.13'' ''metric'' =
      (Inl (HTTPStatusError 500 ''Internal Server Error''), 250)"
    by (simp add: failing_ow_def)
  have e: "store empty_world = Map.empty"
    by (simp add: empty_world_def)
  from main_current_weather_upstream_error [OF empty_world_miss empty_world_free g]
  show ?thesis
    by (simp add: new_events_def sample_current_key lock_key_of_def e)
qed

section \<open>A record without a payload\<close>





section \<open>A request that does not get the lock\<close>

lemma fetch_current_contender:
  "cached_miss E w (current_key E S la lo u) \<and>
      acquire_lock (store w) (clock w) (lock_key_of (current_key E S la lo u)) 10000 = Inr (False, db') \<longrightarrow>
      store (snd (fetch_current E S ow w la lo u nm ctry)) = store w \<and>
      new_events w (snd (fetch_current E S ow w la lo u nm ctry)) =
        [GetJson (current_key E S la lo u), AcquireLock (lock_key_of (current_key E S la lo u)) False]"
proof (intro impI, elim conjE)
  assume m: "cached_miss E w (current_key E S la lo u)"
    and a: "acquire_lock (store w) (clock w) (lock_key_of (current_key E S la lo u)) 10000 = Inr (False, db')"
  from a have f: "\<not> lock_free w (lock_key_of (current_key E S la lo u))"
    by (simp add: acquire_lock_False_iff)
  show "store (snd (fetch_current E S ow w la lo u nm ctry)) = store w \<and>
      new_events w (snd (fetch_current E S ow w la lo u nm ctry)) =
        [GetJson (current_key E S la lo u), AcquireLock (lock_key_of (current_key E S la lo u)) False]"
    by (simp add: fetch_current_busy [OF m f] new_events_def)
qed

lemma fetch_forecast_contender:
  "cached_miss E w (forecast_key E S la lo u) \<and>
      acquire_lock (store w) (clock w) (lock_key_of (forecast_key E S la lo u)) 10000 = Inr (False, db') \<longrightarrow>
      store (snd (fetch_forecast E S ow w la lo u nm ctry)) = store w \<and>
      new_events w (snd (fetch_forecast E S ow w la lo u nm ctry)) =
        [GetJson (forecast_key E S la lo u), AcquireLock (lock_key_of (forecast_key E S la lo u)) False]"
proof (intro impI, elim conjE)
  assume m: "cached_miss E w (forecast_key E S la lo u)"
    and a: "acquire_lock (store w) (clock w) (lock_key_of (forecast_key E S la lo u)) 10000 = Inr (False, db')"
  from a have f: "\<not> lock_free w (lock_key_of (forecast_key E S la lo u))"
    by (simp add: acquire_lock_False_iff)
  show "store (snd (fetch_forecast E S ow w la lo u nm ctry)) = store w \<and>
      new_events w (snd (fetch_forecast E S ow w la lo u nm ctry)) =
        [GetJson (forecast_key E S la lo u), AcquireLock (lock_key_of (forecast_key E S la lo u)) False]"
    by (simp add: fetch_forecast_busy [OF m f] new_events_def)
qed

lemma main_current_weather_contender:
  "cached_miss E w (current_key E S la lo u) \<and>
      acquire_lock (store w) (clock w) (lock_key_of (current_key E S la lo u)) 10000 = Inr (False, db') \<longrightarrow>
      store (snd (main_current_weather E S ow w la lo u)) = store w \<and>
      new_events w (snd (main_current_weather E S ow w la lo u)) =
        [GetJson (current_key E S la lo u), AcquireLock (lock_key_of (current_key E S la lo u)) False]"
proof (intro impI, elim conjE)
  assume m: "cached_miss E w (current_key E S la lo u)"
    and a: "acquire_lock (store w) (clock w) (lock_key_of (current_key E S la lo u)) 10000 = Inr (False, db')"
  from a have f: "\<not> lock_free w (lock_key_of (current_key E S la lo u))"
    by (simp add: acquire_lock_False_iff)
  show "store (snd (main_current_weather E S ow w la lo u)) = store w \<and>
      new_events w (snd (main_current_weather E S ow w la lo u)) =
        [GetJson (current_key E S la lo u), AcquireLock (lock_key_of (current_key E S la lo u)) False]"
    by (simp add: main_current_weather_busy [OF m f] new_events_def)
qed

lemma main_forecast_contender:
  "cached_miss E w (forecast_key E S la lo u) \<and>
      acquire_lock (store w) (clock w) (lock_key_of (forecast_key E S la lo u)) 10000 = Inr (False, db') \<longrightarrow>
      store (snd (main_forecast E S ow w la lo u)) = store w \<and>
      new_events w (snd (main_forecast E S ow w la lo u)) =
        [GetJson (forecast_key E S la lo u), AcquireLock (lock_key_of (forecast_key E S la lo u)) False]"
proof (intro impI, elim conjE)
  assume m: "cached_miss E w (forecast_key E S la lo u)"
    and a: "acquire_lock (store w) (clock w) (lock_key_of (forecast_key E S la lo u)) 10000 = Inr (False, db')"
  from a have f: "\<not> lock_free w (lock_key_of (forecast_key E S la lo u))"
    by (simp add: acquire_lock_False_iff)
  show "store (snd (main_forecast E S ow w la lo u)) = store w \<and>
      new_events w (snd (main_forecast E S ow w la lo u)) =
        [GetJson (forecast_key E S la lo u), AcquireLock (lock_key_of (forecast_key E S la lo u)) False]"
    by (simp add: main_forecast_busy [OF m f] new_events_def)
qed

text \<open>
  C10. In each of the four handlers, a request that misses the cache and whose
  \<open>acquire_lock\<close> returns \<open>False\<close> leaves the whole store as it was, the lock entry of
  the request in flight included, and its only calls are the read of the cache and
  the failed \<open>acquire_lock\<close>: no \<open>set_json\<close>, no \<open>release_lock\<close>, no upstream call.
\<close>

theorem losing_contender_writes_nothing:
  "(cached_miss E w (current_key E S la lo u) \<and>
      acquire_lock (store w) (clock w) (lock_key_of (current_key E S la lo u)) 10000 = Inr (False, db') \<longrightarrow>
      store (snd (fetch_current E S ow w la lo u nm ctry)) = store w \<and>
      new_events w (snd (fetch_current E S ow w la lo u nm ctry)) =
        [GetJson (current_key E S la lo u), AcquireLock (lock_key_of (current_key E S la lo u)) False]) \<and>
   (cached_miss E w (forecast_key E S la lo u) \<and>
      acquire_lock (store w) (clock w) (lock_key_of (forecast_key E S la lo u)) 10000 = Inr (False, db') \<longrightarrow>
      store (snd (fetch_forecast E S ow w la lo u nm ctry)) = store w \<and>
      new_events w (snd (fetch_forecast E S ow w la lo u nm ctry)) =
        [GetJson (forecast_key E S la lo u), AcquireLock (lock_key_of (forecast_key E S la lo u)) False]) \<and>
   (cached_miss E w (current_key E S la lo u) \<and>
      acquire_lock (store w) (clock w) (lock_key_of (current_key E S la lo u)) 10000 = Inr (False, db') \<longrightarrow>
      store (snd (main_current_weather E S ow w la lo u)) = store w \<and>
      new_events w (snd (main_current_weather E S ow w la lo u)) =
        [GetJson (current_key E S la lo u), AcquireLock (lock_key_of (current_key E S la lo u)) False]) \<and>
   (cached_miss E w (forecast_key E S la lo u) \<and>
      acquire_lock (store w) (clock w) (lock_key_of (forecast_key E S la lo u)) 10000 = Inr (False, db') \<longrightarrow>
      store (snd (main_forecast E S ow w la lo u)) = store w \<and>
      new_events w (snd (main_forecast E S ow w la lo u)) =
        [GetJson (forecast_key E S la lo u), AcquireLock (lock_key_of (forecast_key E S la lo u)) False])"
  by (intro conjI) (rule fetch_current_contender fetch_forecast_contender main_current_weather_contender main_forecast_contender)+

theorem losing_contender_writes_nothing_witness:
  "store (snd (fetch_current sample_env default_settings sample_ow
                 (world_with ''lock:current:metric:51.51:-0.13'' ''1'')
                 ''51.51'' ''-0.13'' ''metric'' None None)) =
     store (world_with ''lock:current:metric:51.51:-0.13'' ''1'') \<and>
   new_events (world_with ''lock:current:metric:51.51:-0.13'' ''1'')
     (snd (fetch_current sample_env default_settings sample_ow
             (world_with ''lock:current:metric:51.51:-0.13'' ''1'')
             ''51.51'' ''-0.13'' ''metric'' None None)) =
     [GetJson ''current:metric:51.51:-0.13'',
      AcquireLock ''lock:current:metric:51.51:-0.13'' False]"
proof -
  let ?w = "world_with ''lock:current:metric:51.51:-0.13'' ''1''"
  have k: "current_key sample_env default_settings ''51.51'' ''-0.13'' ''metric'' =
      ''current:metric:51.51:-0.13''"
    by (rule sample_current_key)
  have lk: "lock_key_of ''current:metric:51.51:-0.13'' = ''lock:current:metric:51.51:-0.13''"
    by (simp add: lock_key_of_def)
  have m: "cached_miss sample_env ?w ''current:metric:51.51:-0.13''"
    by (rule world_with_other_miss) simp
  have a: "acquire_lock (store ?w) (clock ?w) ''lock:current:metric:51.51:-0.13'' 10000 =
      Inr (False, store ?w)"
    by (simp add: acquire_lock_False_iff world_with_held)
  from losing_contender_writes_nothing [where E = sample_env and S = default_settings
      and ow = sample_ow and w = ?w and la = "''51.51''" and lo = "''-0.13''"
      and u = "''metric''" and nm = None and ctry = None and db' = "store ?w"] m a
  show ?thesis unfolding k lk by blast
qed

end
